theory Spec2Isabelle
  imports Main "HOL-Library.Sublist" "HOL-Library.AList"
begin

section \<open>Strings and paths\<close>

text \<open>
  Python strings are modelled as \<open>string\<close>. An exception is represented by its
  message, the text that \<^verbatim>\<open>f"{e}"\<close> prints.
\<close>

type_synonym exn = string

text \<open>\<^verbatim>\<open>str.lower\<close> on the ASCII letters (other characters are left alone).\<close>

definition lower_char :: "char \<Rightarrow> char" where
  "lower_char c =
     (case map_of (zip ''ABCDEFGHIJKLMNOPQRSTUVWXYZ'' ''abcdefghijklmnopqrstuvwxyz'') c of
        Some l \<Rightarrow> l
      | None \<Rightarrow> c)"

definition str_lower :: "string \<Rightarrow> string" where
  "str_lower s = map lower_char s"

text \<open>
  \<^verbatim>\<open>str.strip()\<close>: leading and trailing whitespace removed. A string is kept as
  the UTF-8 encoding of the Python string, so the whitespace characters of
  \<^verbatim>\<open>str.isspace\<close> are listed by their encodings: the code points U+0009..U+000D,
  U+001C..U+0020, U+0085, U+00A0, U+1680, U+2000..U+200A, U+2028, U+2029, U+202F,
  U+205F and U+3000.
\<close>

definition whitespace :: "string list" where
  "whitespace =
     [[CHR 0x09], [CHR 0x0A], [CHR 0x0B], [CHR 0x0C], [CHR 0x0D],
      [CHR 0x1C], [CHR 0x1D], [CHR 0x1E], [CHR 0x1F], [CHR 0x20],
      [CHR 0xC2, CHR 0x85], [CHR 0xC2, CHR 0xA0],
      [CHR 0xE1, CHR 0x9A, CHR 0x80],
      [CHR 0xE2, CHR 0x80, CHR 0x80], [CHR 0xE2, CHR 0x80, CHR 0x81],
      [CHR 0xE2, CHR 0x80, CHR 0x82], [CHR 0xE2, CHR 0x80, CHR 0x83],
      [CHR 0xE2, CHR 0x80, CHR 0x84], [CHR 0xE2, CHR 0x80, CHR 0x85],
      [CHR 0xE2, CHR 0x80, CHR 0x86], [CHR 0xE2, CHR 0x80, CHR 0x87],
      [CHR 0xE2, CHR 0x80, CHR 0x88], [CHR 0xE2, CHR 0x80, CHR 0x89],
      [CHR 0xE2, CHR 0x80, CHR 0x8A],
      [CHR 0xE2, CHR 0x80, CHR 0xA8], [CHR 0xE2, CHR 0x80, CHR 0xA9],
      [CHR 0xE2, CHR 0x80, CHR 0xAF],
      [CHR 0xE2, CHR 0x81, CHR 0x9F],
      [CHR 0xE3, CHR 0x80, CHR 0x80]]"

text \<open>
  Dropping leading characters for as long as the string starts with one of the given
  encodings. Encodings of distinct characters are never prefixes of one another, and
  in an encoded string a trailing encoding is always a whole character, so stripping
  the reversed string with the reversed encodings removes the trailing whitespace.
\<close>

function drop_leading :: "string list \<Rightarrow> string \<Rightarrow> string" where
  "drop_leading tokens s =
     (case find (\<lambda>t. t \<noteq> [] \<and> prefix t s) tokens of
        None \<Rightarrow> s
      | Some t \<Rightarrow> drop_leading tokens (drop (length t) s))"
  by pat_completeness auto
termination
  by (relation "measure (\<lambda>(tokens, s). length s)") (auto simp: find_Some_iff prefix_def)

definition str_strip :: "string \<Rightarrow> string" where
  "str_strip s = rev (drop_leading (map rev whitespace) (rev (drop_leading whitespace s)))"

text \<open>\<^verbatim>\<open>p.rfind(c)\<close>: the index of the last occurrence of \<open>c\<close>, or \<open>-1\<close>.\<close>

definition rfind :: "string \<Rightarrow> char \<Rightarrow> int" where
  "rfind p c =
     (if c \<in> set p
      then int (length p) - 1 - int (length (takeWhile (\<lambda>x. x \<noteq> c) (rev p)))
      else - 1)"

text \<open>
  \<^verbatim>\<open>os.path.splitext\<close> (POSIX): the extension starts at the last dot of the last path
  component, unless that component has only dots before it. The loop below is the
  library's scan over the leading dots of the component:
  \<^verbatim>\<open>
    while filenameIndex < dotIndex:
        if p[filenameIndex:filenameIndex+1] != extsep:
            return p[:dotIndex], p[dotIndex:]
        filenameIndex += 1
    return p, p[:0]
  \<close>
\<close>

function skip_leading_dots :: "string \<Rightarrow> nat \<Rightarrow> nat \<Rightarrow> bool" where
  "skip_leading_dots p filenameIndex dotIndex =
     (if filenameIndex < dotIndex
      then (if p ! filenameIndex \<noteq> CHR ''.'' then True
            else skip_leading_dots p (Suc filenameIndex) dotIndex)
      else False)"
  by pat_completeness auto
termination
  by (relation "measure (\<lambda>(p, filenameIndex, dotIndex). dotIndex - filenameIndex)") auto

definition splitext :: "string \<Rightarrow> string \<times> string" where
  "splitext p =
     (let sepIndex = rfind p CHR ''/'';
          dotIndex = rfind p CHR ''.''
      in if dotIndex > sepIndex \<and> skip_leading_dots p (nat (sepIndex + 1)) (nat dotIndex)
         then (take (nat dotIndex) p, drop (nat dotIndex) p)
         else (p, ''''))"

section \<open>MIME resolver\<close>

text \<open>
  \<^verbatim>\<open>guess_mime\<close> (app.py, lines 27-41). The platform table behind
  \<^verbatim>\<open>mimetypes.guess_type\<close> is not part of the repository; it is the parameter
  \<open>guess_type\<close>, giving the first component of the library's answer.
  \<^verbatim>\<open>not mime\<close> holds for \<^verbatim>\<open>None\<close> and for the empty string.
\<close>

definition falsy :: "string option \<Rightarrow> bool" where
  "falsy v = (case v of None \<Rightarrow> True | Some s \<Rightarrow> s = '''')"

definition common :: "(string \<times> string) list" where
  "common =
     [(''.md'', ''text/markdown''),
      (''.txt'', ''text/plain''),
      (''.csv'', ''text/csv''),
      (''.json'', ''application/json''),
      (''.pdf'', ''application/pdf''),
      (''.html'', ''text/html''),
      (''.xml'', ''application/xml'')]"

definition guess_mime :: "(string \<Rightarrow> string option) \<Rightarrow> string \<Rightarrow> string" where
  "guess_mime guess_type filename =
     (let mime = guess_type filename;
          mime = (if falsy mime
                  then (let ext = str_lower (snd (splitext filename)) in map_of common ext)
                  else mime)
      in case mime of
           None \<Rightarrow> ''application/octet-stream''
         | Some m \<Rightarrow> if m = '''' then ''application/octet-stream'' else m)"

text \<open>
  A concrete platform table, for evaluating \<open>guess_mime\<close>: the standard library's
  lookup order with an excerpt of its tables. The library first strips an encoding
  suffix, matched case-sensitively against \<open>encodings_map\<close>, and then looks the
  lower-cased remaining extension up in \<open>types_map\<close>.
\<close>

definition mimetypes_guess_type ::
  "(string \<times> string) list \<Rightarrow> (string \<times> string) list \<Rightarrow> string \<Rightarrow> string option" where
  "mimetypes_guess_type types_map encodings_map url =
     (let (base, ext) = splitext url;
          (base, ext) = (if map_of encodings_map ext = None then (base, ext)
                         else splitext base)
      in map_of types_map (str_lower ext))"

definition platform_excerpt :: "string \<Rightarrow> string option" where
  "platform_excerpt =
     mimetypes_guess_type
       [(''.txt'', ''text/plain''), (''.png'', ''image/png''), (''.tar'', ''application/x-tar'')]
       [(''.gz'', ''gzip''), (''.bz2'', ''bzip2''), (''.xz'', ''xz'')]"

section \<open>Remote objects, the client and the world\<close>

text \<open>
  What a list call returns is duck-typed (app.py, lines 86-99 and 109-121). An object is
  given by the list-valued attributes it has (\<^verbatim>\<open>page\<close>, \<^verbatim>\<open>stores\<close>,
  \<^verbatim>\<open>documents\<close>) and by its two paging methods, each on its own:
  \<^verbatim>\<open>has_next_page\<close> may be missing, may raise when called, or answers true or
  false; \<^verbatim>\<open>next_page\<close> may be missing, may raise when called, or returns the next
  object. A plain \<^verbatim>\<open>list\<close> or \<^verbatim>\<open>tuple\<close> is \<open>Seq\<close>; it has none of these
  attributes.
\<close>

datatype has_next =
    NoHasNextPage
  | HasNextPageRaises exn
  | HasNextPage bool

datatype 'a pyobj =
    Obj "(string \<times> 'a list) list" has_next "'a next"
  | Seq "'a list"
and 'a "next" =
    NoNextPage
  | NextPageRaises exn
  | NextPage "'a pyobj"

fun hasattr :: "'a pyobj \<Rightarrow> string \<Rightarrow> bool" where
  "hasattr (Obj at h n) a = (map_of at a \<noteq> None)"
| "hasattr (Seq xs) a = False"

fun getattr :: "'a pyobj \<Rightarrow> string \<Rightarrow> 'a list \<Rightarrow> 'a list" where
  "getattr (Obj at h n) a dflt = (case map_of at a of None \<Rightarrow> dflt | Some v \<Rightarrow> v)"
| "getattr (Seq xs) a dflt = dflt"

record store =
  name_attr :: "string option"
  display_name_attr :: "string option"

record document =
  doc_name_attr :: "string option"
  doc_display_name_attr :: "string option"
  doc_create_time_attr :: "string option"
  doc_update_time_attr :: "string option"

text \<open>
  \<^verbatim>\<open>_safe_get(obj, attr, default)\<close> (lines 75-79), on an attribute that is either
  there (\<open>Some\<close>) or is missing or raises when read (\<open>None\<close>).
\<close>

definition safe_get :: "'a option \<Rightarrow> 'a \<Rightarrow> 'a" where
  "safe_get attr dflt = (case attr of None \<Rightarrow> dflt | Some v \<Rightarrow> v)"

text \<open>An import operation handle; \<open>op_done\<close> (the attribute \<^verbatim>\<open>done\<close>) is \<open>None\<close> when the handle has no such attribute.\<close>

record operation =
  op_name :: string
  op_done :: "bool option"

text \<open>Python dictionaries and lists sent to the service, with the key order kept.\<close>

datatype json =
    JNone
  | JStr string
  | JList "json list"
  | JDict "(string \<times> json) list"

record response =
  text_attr :: "string option"

text \<open>
  Everything the program does to the outside is recorded as an event, in order: the
  messages it shows (by Streamlit call), the sleeps, the remote calls with their
  arguments, and the file-system calls.
\<close>

datatype widget =
    StError | StSuccess | StWarning | StInfo | StWrite
  | SidebarError | SidebarSuccess | SidebarInfo

datatype event =
    Ui widget string
  | Sleep nat
  | StoresList nat
  | StoresDelete string
  | DocumentsList string nat
  | DocumentsDelete string bool
  | UploadToFileSearchStore string string string
  | OperationsGet operation
  | GenerateContent string string json
  | NamedTemporaryFile string
  | TmpWrite string string
  | OsRemove string

text \<open>
  The world: the state of everything outside the program (the remote service and the
  operating system), of an arbitrary type \<open>'r\<close>; the temporary files that exist; and the
  events so far.
\<close>

record 'r world =
  outside :: 'r
  files :: "string set"
  trace :: "event list"

text \<open>
  The client and the operating system, as functions of the outside state: each call
  returns the new outside state and either the exception it raises or its result.
  The arguments are those of the source's calls (the page size, the \<^verbatim>\<open>force\<close> flag,
  the temporary path, the store name and the display name of an upload).
\<close>

record 'r env =
  file_search_stores_list :: "'r \<Rightarrow> nat \<Rightarrow> 'r \<times> (exn + store pyobj)"
  file_search_stores_delete :: "'r \<Rightarrow> string \<Rightarrow> 'r \<times> exn option"
  documents_list :: "'r \<Rightarrow> string \<Rightarrow> nat \<Rightarrow> 'r \<times> (exn + document pyobj)"
  documents_delete :: "'r \<Rightarrow> string \<Rightarrow> bool \<Rightarrow> 'r \<times> exn option"
  upload_to_file_search_store :: "'r \<Rightarrow> string \<Rightarrow> string \<Rightarrow> string \<Rightarrow> 'r \<times> (exn + operation)"
  operations_get :: "'r \<Rightarrow> operation \<Rightarrow> 'r \<times> (exn + operation)"
  generate_content :: "'r \<Rightarrow> string \<Rightarrow> string \<Rightarrow> json \<Rightarrow> 'r \<times> (exn + response)"
  named_temporary_file :: "'r \<Rightarrow> string \<Rightarrow> 'r \<times> (exn + string)"
  tmp_write :: "'r \<Rightarrow> string \<Rightarrow> string \<Rightarrow> 'r \<times> exn option"
  platform_guess_type :: "string \<Rightarrow> string option"

definition emit :: "event list \<Rightarrow> 'r world \<Rightarrow> 'r world" where
  "emit es w = w\<lparr>trace := trace w @ es\<rparr>"

text \<open>
  The remote calls among the events: everything but messages, sleeps and file-system
  calls.
\<close>

fun is_remote_call :: "event \<Rightarrow> bool" where
  "is_remote_call (Ui k m) = False"
| "is_remote_call (Sleep n) = False"
| "is_remote_call (NamedTemporaryFile sfx) = False"
| "is_remote_call (TmpWrite path b) = False"
| "is_remote_call (OsRemove path) = False"
| "is_remote_call e = True"

definition remote_calls :: "event list \<Rightarrow> event list" where
  "remote_calls es = filter is_remote_call es"

section \<open>Listing stores and documents\<close>

text \<open>
  The inner loop of both listing functions (lines 90-95 and 112-117):
  \<^verbatim>\<open>
    try:
        while hasattr(pager, "has_next_page") and pager.has_next_page():
            pager = pager.next_page()
            stores.extend(getattr(pager, "page", []))
    except Exception:
        pass
  \<close>
  \<open>acc\<close> is the list extended so far. The loop ends when the object has no
  \<^verbatim>\<open>has_next_page\<close> or it answers false; an exception (of \<^verbatim>\<open>has_next_page\<close>,
  of \<^verbatim>\<open>next_page\<close>, or the \<^verbatim>\<open>AttributeError\<close> of a missing
  \<^verbatim>\<open>next_page\<close>) ends the loop and is dropped.
\<close>

fun drain_pages :: "'a list \<Rightarrow> 'a pyobj \<Rightarrow> 'a list" where
  "drain_pages acc (Seq xs) = acc"
| "drain_pages acc (Obj at h n) =
     (case h of
        NoHasNextPage \<Rightarrow> acc
      | HasNextPageRaises e \<Rightarrow> acc
      | HasNextPage answer \<Rightarrow>
          if answer
          then (case n of
                  NoNextPage \<Rightarrow> acc
                | NextPageRaises e \<Rightarrow> acc
                | NextPage pager \<Rightarrow> drain_pages (acc @ getattr pager ''page'' []) pager)
          else acc)"

text \<open>
  The three shapes, tried in order (lines 88-99); \<open>coll\<close> is the name of the collection
  attribute, \<^verbatim>\<open>stores\<close> or \<^verbatim>\<open>documents\<close>. An object of no known shape leaves the
  initial empty list.
\<close>

definition drain :: "string \<Rightarrow> 'a pyobj \<Rightarrow> 'a list" where
  "drain coll pager =
     (if hasattr pager ''page'' then drain_pages ([] @ getattr pager ''page'' []) pager
      else if hasattr pager coll then getattr pager coll []
      else (case pager of Seq xs \<Rightarrow> xs | Obj at h n \<Rightarrow> []))"

definition list_stores :: "'r env \<Rightarrow> 'r world \<Rightarrow> store list \<times> 'r world" where
  "list_stores client w =
     (case file_search_stores_list client (outside w) 20 of
        (r, Inl e) \<Rightarrow>
          ([], emit [StoresList 20, Ui SidebarError (''Failed to list stores: '' @ e)]
                 (w\<lparr>outside := r\<rparr>))
      | (r, Inr pager) \<Rightarrow>
          (drain ''stores'' pager, emit [StoresList 20] (w\<lparr>outside := r\<rparr>)))"

definition list_store_documents ::
  "'r env \<Rightarrow> string \<Rightarrow> 'r world \<Rightarrow> document list \<times> 'r world" where
  "list_store_documents client store_name w =
     (case documents_list client (outside w) store_name 20 of
        (r, Inl e) \<Rightarrow>
          ([], emit [DocumentsList store_name 20,
                     Ui StError (''Failed to list store files: '' @ e)]
                 (w\<lparr>outside := r\<rparr>))
      | (r, Inr pager) \<Rightarrow>
          (drain ''documents'' pager, emit [DocumentsList store_name 20] (w\<lparr>outside := r\<rparr>)))"

text \<open>
  The reference behaviour of the pager drain. The objects reached from a result by
  advancing: the result itself, and the object that \<^verbatim>\<open>next_page\<close> returns for as
  long as the object at hand has a \<^verbatim>\<open>has_next_page\<close> that answers true.
\<close>

fun advance_chain :: "'a pyobj \<Rightarrow> 'a pyobj list" where
  "advance_chain (Obj at (HasNextPage True) (NextPage pager)) =
     Obj at (HasNextPage True) (NextPage pager) # advance_chain pager"
| "advance_chain pager = [pager]"

text \<open>
  What a listing returns for the outcome of the list call: nothing when the call
  raises; for a result with a \<^verbatim>\<open>page\<close> attribute the pages of the objects reached
  by advancing, in order; otherwise the named collection, or the plain collection
  itself. The warning is the message of the exception of the list call, if it raised.
\<close>

definition drain_reference :: "string \<Rightarrow> exn + 'a pyobj \<Rightarrow> 'a list" where
  "drain_reference coll res =
     (case res of
        Inl e \<Rightarrow> []
      | Inr pager \<Rightarrow>
          if hasattr pager ''page''
          then concat (map (\<lambda>p. getattr p ''page'' []) (advance_chain pager))
          else if hasattr pager coll then getattr pager coll []
          else (case pager of Seq xs \<Rightarrow> xs | Obj at h n \<Rightarrow> []))"

definition warning_reference :: "exn + 'a pyobj \<Rightarrow> exn option" where
  "warning_reference res = (case res of Inl e \<Rightarrow> Some e | Inr pager \<Rightarrow> None)"

text \<open>
  A cursor with a working \<^verbatim>\<open>has_next_page\<close>: its current page, the pages that
  follow, and possibly an exception that advancing past the last of them raises.
\<close>

fun cursor_stub :: "'a list \<Rightarrow> 'a list list \<Rightarrow> exn option \<Rightarrow> 'a pyobj" where
  "cursor_stub page [] None = Obj [(''page'', page)] (HasNextPage False) NoNextPage"
| "cursor_stub page [] (Some e) = Obj [(''page'', page)] (HasNextPage True) (NextPageRaises e)"
| "cursor_stub page (q # qs) failure =
     Obj [(''page'', page)] (HasNextPage True) (NextPage (cursor_stub q qs failure))"

section \<open>Session state, store activation and store deletion\<close>

text \<open>
  The keys of \<^verbatim>\<open>st.session_state\<close> that the script uses; \<open>None\<close> is a key that is
  not set. \<open>store_docs_for\<close> is the key \<^verbatim>\<open>_store_docs_for\<close>, the tag of the document
  cache.
\<close>

record session =
  file_search_store :: "store option"
  file_search_store_name :: "string option"
  file_search_store_display_name :: "string option"
  store_documents :: "document list option"
  store_docs_for :: "string option"
  stores_list :: "store list option"

text \<open>
  \<^verbatim>\<open>ensure_store_in_state\<close> (lines 70-72). The second assignment reads
  \<^verbatim>\<open>store.name\<close> directly, which raises when the attribute is missing; the first
  assignment has happened by then.
\<close>

definition ensure_store_in_state :: "store \<Rightarrow> session \<Rightarrow> exn option \<times> session" where
  "ensure_store_in_state store ss =
     (let ss1 = ss\<lparr>file_search_store := Some store\<rparr>
      in case name_attr store of
           None \<Rightarrow> (Some ''AttributeError: name'', ss1)
         | Some n \<Rightarrow> (None, ss1\<lparr>file_search_store_name := Some n\<rparr>))"

text \<open>
  Store activation (lines 163 and 173-180), for the store the radio selects:
  \<^verbatim>\<open>
    active_name = st.session_state.get("file_search_store_name", "")
    ...
    if selected_store:
        sel_name = _safe_get(selected_store, "name", "")
        if sel_name and sel_name != active_name:
            ensure_store_in_state(selected_store)
            st.session_state["file_search_store_display_name"] = _safe_get(selected_store, "display_name", "")
            st.session_state["store_documents"] = list_store_documents(client, sel_name)
            st.session_state["_store_docs_for"] = sel_name
        st.sidebar.success(f"Active store: {sel_name}")
  \<close>
  The result is the exception that leaves the block, if any, the session and the world.
\<close>

definition activate ::
  "'r env \<Rightarrow> store option \<Rightarrow> session \<times> 'r world \<Rightarrow> exn option \<times> session \<times> 'r world" where
  "activate client selected_store sw =
     (let (ss, w) = sw;
          active_name = safe_get (file_search_store_name ss) ''''
      in case selected_store of
           None \<Rightarrow> (None, ss, w)
         | Some sel \<Rightarrow>
             (let sel_name = safe_get (name_attr sel) ''''
              in if sel_name \<noteq> '''' \<and> sel_name \<noteq> active_name
                 then (case ensure_store_in_state sel ss of
                         (Some e, ss1) \<Rightarrow> (Some e, ss1, w)
                       | (None, ss1) \<Rightarrow>
                           (let ss2 = ss1\<lparr>file_search_store_display_name :=
                                            Some (safe_get (display_name_attr sel) '''')\<rparr>;
                                (docs, w1) = list_store_documents client sel_name w;
                                ss3 = ss2\<lparr>store_documents := Some docs\<rparr>;
                                ss4 = ss3\<lparr>store_docs_for := Some sel_name\<rparr>
                            in (None, ss4,
                                emit [Ui SidebarSuccess (''Active store: '' @ sel_name)] w1)))
                 else (None, ss, emit [Ui SidebarSuccess (''Active store: '' @ sel_name)] w)))"

text \<open>
  The loop \<^verbatim>\<open>for k in [...]: st.session_state.pop(k, None)\<close> of lines 194-195.
\<close>

definition pop_store_keys :: "session \<Rightarrow> session" where
  "pop_store_keys ss =
     ss\<lparr>file_search_store := None, file_search_store_name := None,
        store_documents := None, store_docs_for := None\<rparr>"

text \<open>
  Deleting the selected store (lines 184-199):
  \<^verbatim>\<open>
    if delete_clicked and selected_store:
        store_to_delete_name = _safe_get(selected_store, "name", "")
        if not store_to_delete_name:
            st.sidebar.error("No store resource name available for deletion.")
        else:
            try:
                client.file_search_stores.delete(name=store_to_delete_name)
                st.sidebar.success(f"Deleted store: {store_to_delete_name}")
                if st.session_state.get("file_search_store_name") == store_to_delete_name:
                    for k in [...]: st.session_state.pop(k, None)
            except Exception as e1:
                st.sidebar.error(f"Failed to delete store: {e1}")
            # Refresh stores list
            st.session_state["stores_list"] = list_stores(client)
  \<close>
  The refresh stands in the \<^verbatim>\<open>else\<close> branch, after the \<^verbatim>\<open>try\<close> statement.
\<close>

definition delete_active_store ::
  "'r env \<Rightarrow> bool \<Rightarrow> store option \<Rightarrow> session \<times> 'r world \<Rightarrow> session \<times> 'r world" where
  "delete_active_store client delete_clicked selected_store sw =
     (let (ss, w) = sw
      in case selected_store of
           None \<Rightarrow> (ss, w)
         | Some sel \<Rightarrow>
             if delete_clicked
             then (let store_to_delete_name = safe_get (name_attr sel) ''''
                   in if store_to_delete_name = ''''
                      then (ss, emit [Ui SidebarError
                                        ''No store resource name available for deletion.''] w)
                      else (let (r, raised) =
                                  file_search_stores_delete client (outside w) store_to_delete_name;
                                w1 = emit [StoresDelete store_to_delete_name] (w\<lparr>outside := r\<rparr>);
                                (ss1, w2) =
                                  (case raised of
                                     None \<Rightarrow>
                                       (if file_search_store_name ss = Some store_to_delete_name
                                        then pop_store_keys ss else ss,
                                        emit [Ui SidebarSuccess
                                                (''Deleted store: '' @ store_to_delete_name)] w1)
                                   | Some e1 \<Rightarrow>
                                       (ss, emit [Ui SidebarError
                                                    (''Failed to delete store: '' @ e1)] w1));
                                (stores, w3) = list_stores client w2
                            in (ss1\<lparr>stores_list := Some stores\<rparr>, w3)))
             else (ss, w))"

section \<open>Batch delete of documents\<close>

text \<open>
  The loop of lines 271-276; a result record is a dictionary, kept as the list of its
  items:
  \<^verbatim>\<open>
    for doc_name in selected_doc_names:
        try:
            client.file_search_stores.documents.delete(name=doc_name, config={"force": True})
            results.append({"document": doc_name, "status": "deleted"})
        except Exception as e1:
            results.append({"document": doc_name, "status": f"error: {e1}"})
  \<close>
\<close>

type_synonym result = "(string \<times> string) list"

fun delete_loop ::
  "'r env \<Rightarrow> string list \<Rightarrow> result list \<times> 'r world \<Rightarrow> result list \<times> 'r world" where
  "delete_loop client [] rw = rw"
| "delete_loop client (doc_name # rest) (results, w) =
     (let (r, raised) = documents_delete client (outside w) doc_name True;
          w1 = emit [DocumentsDelete doc_name True] (w\<lparr>outside := r\<rparr>);
          results1 =
            (case raised of
               None \<Rightarrow> results @ [[(''document'', doc_name), (''status'', ''deleted'')]]
             | Some e1 \<Rightarrow> results @ [[(''document'', doc_name), (''status'', ''error: '' @ e1)]])
      in delete_loop client rest (results1, w1))"

text \<open>
  The delete action (lines 269-279): the loop, then
  \<^verbatim>\<open>st.session_state["store_documents"] = list_store_documents(client, store_name)\<close>.
  Without a click or with nothing selected the block does not run and there are no
  results.
\<close>

definition delete_documents ::
  "'r env \<Rightarrow> bool \<Rightarrow> string list \<Rightarrow> string \<Rightarrow> session \<times> 'r world
     \<Rightarrow> result list option \<times> session \<times> 'r world" where
  "delete_documents client delete_docs_clicked selected_doc_names store_name sw =
     (let (ss, w) = sw
      in if delete_docs_clicked \<and> selected_doc_names \<noteq> []
         then (let (results, w1) = delete_loop client selected_doc_names ([], w);
                   (docs, w2) = list_store_documents client store_name w1;
                   ss1 = ss\<lparr>store_documents := Some docs\<rparr>;
                   w3 = emit [Ui StSuccess ''Deletion attempted. See results below.''] w2
               in (Some results, ss1, w3))
         else (None, ss, w))"

text \<open>
  The reference behaviour of the batch: the outcome of each delete, one per identifier,
  each issued in the state the previous ones left.
\<close>

fun delete_outcomes :: "'r env \<Rightarrow> 'r \<Rightarrow> string list \<Rightarrow> exn option list" where
  "delete_outcomes client r [] = []"
| "delete_outcomes client r (doc_name # rest) =
     snd (documents_delete client r doc_name True)
       # delete_outcomes client (fst (documents_delete client r doc_name True)) rest"

fun outside_after_deletes :: "'r env \<Rightarrow> 'r \<Rightarrow> string list \<Rightarrow> 'r" where
  "outside_after_deletes client r [] = r"
| "outside_after_deletes client r (doc_name # rest) =
     outside_after_deletes client (fst (documents_delete client r doc_name True)) rest"

definition delete_record :: "string \<Rightarrow> exn option \<Rightarrow> result" where
  "delete_record doc_name outcome =
     [(''document'', doc_name),
      (''status'', case outcome of None \<Rightarrow> ''deleted'' | Some e \<Rightarrow> ''error: '' @ e)]"

section \<open>Query\<close>

text \<open>The em dash of the prompt text, as its UTF-8 bytes.\<close>

definition em_dash :: string where
  "em_dash = [CHR 0xE2, CHR 0x80, CHR 0x94]"

text \<open>
  The triple-quoted literal of lines 365-373, character by character (it begins with a
  double quote and keeps the line breaks and the indentation of the source).
\<close>

definition prompt_text :: string where
  "prompt_text =
      ''\"You are a specialized tool for verifying the existence and details of a bug bounty program based on the user's input. \"\<newline>'' @
      ''                            \"**Strictly use the File Search tool on the provided vector store** to find a matching bug bounty program. \"\<newline>'' @
      ''                            \"If a match is found, extract the required details. \"\<newline>'' @
      ''                            \"**Respond strictly in a single JSON object only**, with no explanations, extra text, or markdown formatting (e.g., no ```json ```). \"\<newline>'' @
      ''                            \"The required fields are: \"\<newline>'' @
      ''                            \"* **'Found'**: (string, 'Yes' or 'No') '' @ em_dash @ '' Indicate if a bug bounty program was found for the input. \"\<newline>'' @
      ''                            \"* **'Source'**: (string, the name or ID of the document/file in the vector store where the information was found, or 'N/A' if not found). \"\<newline>'' @
      ''                            \"* **'Rewards'**: (string, 'Yes' or 'No') '' @ em_dash @ '' Indicate if the program offers monetary or non-monetary rewards. \"\<newline>'' @
      ''                            \"Example of expected output: {'Found': 'Yes', 'Source': 'vector_store_doc_123', 'Rewards': 'Yes'}\" ''"

text \<open>
  The question tab (lines 350-409), when the button state is \<open>ask\<close>:
  \<^verbatim>\<open>
    if not store_name: st.info(...)
    else:
        if ask and question.strip():
            try:
                sys_prompt = None
                if use_default_prompt:
                    sys_prompt = ("""...""" f"Input: {question.strip()}")
                config = {"tools": [{"file_search": {"file_search_store_names": [store_name]}}]}
                if use_default_prompt:
                    config["system_instruction"] = sys_prompt
                response = client.models.generate_content(
                    model=model_name, contents=question.strip(), config=config)
                st.write(getattr(response, "text", "") or "")
            except Exception as e:
                st.error(f"Generation failed: {e}")
        elif ask:
            st.warning("Please enter a question.")
  \<close>
  \<open>store_name\<close> is \<^verbatim>\<open>st.session_state.get("file_search_store_name")\<close>.
\<close>

definition ask_question ::
  "'r env \<Rightarrow> bool \<Rightarrow> string \<Rightarrow> string \<Rightarrow> bool \<Rightarrow> string option \<Rightarrow> 'r world \<Rightarrow> 'r world" where
  "ask_question client ask question model_name use_default_prompt store_name_opt w =
     (if falsy store_name_opt
      then emit [Ui StInfo ''Create or select a File Search store in the sidebar first.''] w
      else
       (let store_name = safe_get store_name_opt ''''
        in if ask \<and> str_strip question \<noteq> ''''
           then (let sys_prompt =
                       (if use_default_prompt
                        then JStr (prompt_text @ ''Input: '' @ str_strip question)
                        else JNone);
                     config =
                       [(''tools'',
                         JList [JDict [(''file_search'',
                                        JDict [(''file_search_store_names'',
                                                JList [JStr store_name])])]])];
                     config = (if use_default_prompt
                               then AList.update ''system_instruction'' sys_prompt config
                               else config);
                     (r, res) = generate_content client (outside w) model_name
                                  (str_strip question) (JDict config);
                     w1 = emit [GenerateContent model_name (str_strip question) (JDict config)]
                            (w\<lparr>outside := r\<rparr>)
                 in case res of
                      Inr response \<Rightarrow> emit [Ui StWrite (safe_get (text_attr response) '''')] w1
                    | Inl e \<Rightarrow> emit [Ui StError (''Generation failed: '' @ e)] w1)
           else if ask then emit [Ui StWarning ''Please enter a question.''] w
           else w))"

text \<open>The configurations submitted to the chat-completion call, in order.\<close>

fun submitted_configs :: "event list \<Rightarrow> json list" where
  "submitted_configs [] = []"
| "submitted_configs (GenerateContent model contents config # es) = config # submitted_configs es"
| "submitted_configs (e # es) = submitted_configs es"

fun dict_get :: "json \<Rightarrow> string \<Rightarrow> json option" where
  "dict_get (JDict items) k = map_of items k"
| "dict_get other k = None"

section \<open>Upload and import\<close>

record uploaded_file =
  uf_name :: string
  uf_buffer :: string

text \<open>
  The names the upload loop binds and reads across iterations. The script is run from
  its first line on every interaction, so they are unbound (\<open>None\<close>) when the loop
  starts; reading an unbound name raises \<^verbatim>\<open>NameError\<close>.
\<close>

record vars =
  v_temp_path :: "string option"
  v_display_name :: "string option"
  v_mime_type :: "string option"
  v_results :: "result list"

definition unbound :: vars where
  "unbound = \<lparr>v_temp_path = None, v_display_name = None, v_mime_type = None, v_results = []\<rparr>"

text \<open>
  The polling loop (lines 325-327):
  \<^verbatim>\<open>
    while not getattr(operation, "done", False):
        time.sleep(2)
        operation = client.operations.get(operation)
  \<close>
  It has no bound, so the model is a partial function: \<open>None\<close> is the loop that never
  ends. An exception of the status call leaves the loop (\<open>Inl\<close>).
\<close>

definition getattr_done :: "operation \<Rightarrow> bool" where
  "getattr_done operation = (case op_done operation of None \<Rightarrow> False | Some b \<Rightarrow> b)"

partial_function (option) poll ::
  "'r env \<Rightarrow> operation \<Rightarrow> 'r world \<Rightarrow> ((exn + operation) \<times> 'r world) option" where
  "poll client operation w =
     (if \<not> getattr_done operation
      then (case operations_get client (outside (emit [Sleep 2] w)) operation of
              (r, Inl e) \<Rightarrow>
                Some (Inl e, emit [OperationsGet operation] ((emit [Sleep 2] w)\<lparr>outside := r\<rparr>))
            | (r, Inr operation') \<Rightarrow>
                poll client operation'
                  (emit [OperationsGet operation] ((emit [Sleep 2] w)\<lparr>outside := r\<rparr>)))
      else Some (Inr operation, w))"

text \<open>
  The \<^verbatim>\<open>with\<close> block (lines 308-310):
  \<^verbatim>\<open>
    with tempfile.NamedTemporaryFile(delete=False, suffix=os.path.splitext(f.name)[1]) as tmp:
        tmp.write(f.getbuffer())
        temp_path = tmp.name
  \<close>
  Creating the file may raise; once created (with \<^verbatim>\<open>delete=False\<close>) the file
  exists until it is removed. Writing may raise, and then the block is left before
  \<open>temp_path\<close> is assigned. The result is the exception, or the path that the last
  line assigns to \<open>temp_path\<close>.
\<close>

definition write_temp ::
  "'r env \<Rightarrow> uploaded_file \<Rightarrow> 'r world \<Rightarrow> (exn + string) \<times> 'r world" where
  "write_temp client f w =
     (let suffix = snd (splitext (uf_name f));
          (r, created) = named_temporary_file client (outside w) suffix;
          w1 = emit [NamedTemporaryFile suffix] (w\<lparr>outside := r\<rparr>)
      in case created of
           Inl e \<Rightarrow> (Inl e, w1)
         | Inr path \<Rightarrow>
             (let w2 = w1\<lparr>files := insert path (files w1)\<rparr>;
                  (r2, raised) = tmp_write client (outside w2) path (uf_buffer f);
                  w3 = emit [TmpWrite path (uf_buffer f)] (w2\<lparr>outside := r2\<rparr>)
              in case raised of
                   Some e \<Rightarrow> (Inl e, w3)
                 | None \<Rightarrow> (Inr path, w3)))"

definition success_record :: "string \<Rightarrow> string \<Rightarrow> string \<Rightarrow> result" where
  "success_record file display_name mime_type =
     [(''file'', file), (''display_name'', display_name), (''mime_type'', mime_type),
      (''status'', ''success'')]"

definition failure_record :: "string \<Rightarrow> string \<Rightarrow> exn \<Rightarrow> result" where
  "failure_record file display_name e =
     [(''file'', file), (''display_name'', display_name), (''status'', ''error: '' @ e)]"

text \<open>
  The body of the \<^verbatim>\<open>try\<close> statement (lines 307-331). The first component of the
  result is the exception that leaves the body, if any; \<open>None\<close> for the whole is the
  polling loop that never ends.
\<close>

definition try_body ::
  "'r env \<Rightarrow> string \<Rightarrow> uploaded_file \<Rightarrow> vars \<times> 'r world
     \<Rightarrow> (exn option \<times> vars \<times> 'r world) option" where
  "try_body client store_name f vw =
     (case write_temp client f (snd vw) of
        (Inl e, w) \<Rightarrow> Some (Some e, fst vw, w)
      | (Inr temp_path, w) \<Rightarrow>
          (let v = (fst vw)\<lparr>v_temp_path := Some temp_path\<rparr>;
               base_name = fst (splitext (uf_name f));
               display_name = base_name;
               mime_type = guess_mime (platform_guess_type client) (uf_name f);
               v1 = v\<lparr>v_display_name := Some display_name, v_mime_type := Some mime_type\<rparr>;
               w1 = emit
                      [Ui StWrite (''Uploading to File Search store: '' @ uf_name f
                                    @ '' (detected mime: '' @ mime_type @ '')''),
                       Ui StWrite (''Uploading & importing into File Search store: ''
                                    @ store_name @ '' (display name: '' @ display_name
                                    @ '')'')] w;
               (r, res) = upload_to_file_search_store client (outside w1)
                            temp_path store_name display_name;
               w2 = emit [UploadToFileSearchStore temp_path store_name display_name]
                      (w1\<lparr>outside := r\<rparr>)
           in case res of
                Inl e \<Rightarrow> Some (Some e, v1, w2)
              | Inr operation \<Rightarrow>
                  (case poll client operation w2 of
                     None \<Rightarrow> None
                   | Some (Inl e, w3) \<Rightarrow> Some (Some e, v1, w3)
                   | Some (Inr operation', w3) \<Rightarrow>
                       Some (None,
                             v1\<lparr>v_results := v_results v1
                                   @ [success_record (uf_name f) display_name mime_type]\<rparr>,
                             emit [Ui StSuccess (''Indexed: '' @ uf_name f)] w3))))"

text \<open>
  The handler (lines 332-335):
  \<^verbatim>\<open>
    except Exception as e:
        results.append({"file": f.name, "display_name": display_name, "status": f"error: {e}"})
        st.error(f"Upload/import failed for {f.name}: {e}")
  \<close>
  Building the record reads \<open>display_name\<close>; when the name is unbound this raises
  \<^verbatim>\<open>NameError\<close> out of the handler, before anything is appended or shown.
\<close>

definition except_handler ::
  "uploaded_file \<Rightarrow> exn \<Rightarrow> vars \<times> 'r world \<Rightarrow> exn option \<times> vars \<times> 'r world" where
  "except_handler f e vw =
     (let (v, w) = vw
      in case v_display_name v of
           None \<Rightarrow> (Some ''name 'display_name' is not defined'', v, w)
         | Some display_name \<Rightarrow>
             (None,
              v\<lparr>v_results := v_results v @ [failure_record (uf_name f) display_name e]\<rparr>,
              emit [Ui StError (''Upload/import failed for '' @ uf_name f @ '': '' @ e)] w))"

text \<open>
  The \<^verbatim>\<open>finally\<close> clause (lines 336-340):
  \<^verbatim>\<open>
    try:
        os.remove(temp_path)
    except Exception:
        pass
  \<close>
  With \<open>temp_path\<close> unbound the call is not reached; with a path that does not exist
  the call raises; both exceptions are dropped. Removing a file that exists succeeds.
\<close>

definition finally_remove :: "vars \<times> 'r world \<Rightarrow> 'r world" where
  "finally_remove vw =
     (let (v, w) = vw
      in case v_temp_path v of
           None \<Rightarrow> w
         | Some temp_path \<Rightarrow>
             emit [OsRemove temp_path] (w\<lparr>files := files w - {temp_path}\<rparr>))"

text \<open>One iteration of the loop: \<^verbatim>\<open>try\<close>, \<^verbatim>\<open>except\<close>, \<^verbatim>\<open>finally\<close>.\<close>

definition upload_one ::
  "'r env \<Rightarrow> string \<Rightarrow> uploaded_file \<Rightarrow> vars \<times> 'r world
     \<Rightarrow> (exn option \<times> vars \<times> 'r world) option" where
  "upload_one client store_name f vw =
     (case try_body client store_name f vw of
        None \<Rightarrow> None
      | Some (None, v, w) \<Rightarrow> Some (None, v, finally_remove (v, w))
      | Some (Some e, v, w) \<Rightarrow>
          (case except_handler f e (v, w) of
             (raised, v1, w1) \<Rightarrow> Some (raised, v1, finally_remove (v1, w1))))"

text \<open>
  \<^verbatim>\<open>for f in uploaded_files\<close> (line 305): an exception that leaves an iteration
  leaves the loop.
\<close>

fun upload_loop ::
  "'r env \<Rightarrow> string \<Rightarrow> uploaded_file list \<Rightarrow> vars \<times> 'r world
     \<Rightarrow> (exn option \<times> vars \<times> 'r world) option" where
  "upload_loop client store_name [] vw = Some (None, vw)"
| "upload_loop client store_name (f # rest) vw =
     (case upload_one client store_name f vw of
        None \<Rightarrow> None
      | Some (Some e, v, w) \<Rightarrow> Some (Some e, v, w)
      | Some (None, v, w) \<Rightarrow> upload_loop client store_name rest (v, w))"

text \<open>
  The upload action (lines 300-305): \<^verbatim>\<open>results = []\<close>, then the loop. The result is
  the exception that ends the script run, if any, the names and the world.
\<close>

definition upload_and_import ::
  "'r env \<Rightarrow> bool \<Rightarrow> uploaded_file list \<Rightarrow> string \<Rightarrow> 'r world
     \<Rightarrow> (exn option \<times> vars \<times> 'r world) option" where
  "upload_and_import client upload_clicked uploaded_files store_name w =
     (if upload_clicked
      then (if uploaded_files = []
            then Some (None, unbound, emit [Ui StWarning ''Please select at least one file.''] w)
            else upload_loop client store_name uploaded_files (unbound\<lparr>v_results := []\<rparr>, w))
      else Some (None, unbound, w))"

text \<open>
  When the polling loop ends: the flag is true after \<open>k\<close> status calls, none of which
  raises (\<open>done_after\<close>); or, within \<open>k\<close> status calls, the flag is true or a call
  raises (\<open>halts_within\<close>). \<open>r\<close> is the outside state when the loop starts.
\<close>

fun done_after :: "nat \<Rightarrow> 'r env \<Rightarrow> operation \<Rightarrow> 'r \<Rightarrow> bool" where
  "done_after 0 client operation r = getattr_done operation"
| "done_after (Suc k) client operation r =
     (if getattr_done operation then False
      else (case operations_get client r operation of
              (r', Inl e) \<Rightarrow> False
            | (r', Inr operation') \<Rightarrow> done_after k client operation' r'))"

fun halts_within :: "nat \<Rightarrow> 'r env \<Rightarrow> operation \<Rightarrow> 'r \<Rightarrow> bool" where
  "halts_within 0 client operation r = getattr_done operation"
| "halts_within (Suc k) client operation r =
     (if getattr_done operation then True
      else (case operations_get client r operation of
              (r', Inl e) \<Rightarrow> True
            | (r', Inr operation') \<Rightarrow> halts_within k client operation' r'))"

fun sleeps :: "event list \<Rightarrow> nat list" where
  "sleeps [] = []"
| "sleeps (Sleep n # es) = n # sleeps es"
| "sleeps (e # es) = sleeps es"

section \<open>Concrete clients and inputs\<close>

text \<open>
  A client whose every call succeeds at once and changes nothing outside; the clients
  below differ from it in the calls named. The outside state is a counter.
\<close>

definition idle :: "nat env" where
  "idle =
     \<lparr>file_search_stores_list = (\<lambda>r n. (r, Inr (Seq []))),
      file_search_stores_delete = (\<lambda>r n. (r, None)),
      documents_list = (\<lambda>r s n. (r, Inr (Seq []))),
      documents_delete = (\<lambda>r n force. (r, None)),
      upload_to_file_search_store =
        (\<lambda>r path s d. (r, Inr \<lparr>op_name = ''operations/1'', op_done = Some True\<rparr>)),
      operations_get = (\<lambda>r operation. (r, Inr (operation\<lparr>op_done := Some True\<rparr>))),
      generate_content = (\<lambda>r m c cfg. (r, Inr \<lparr>text_attr = Some ''{}''\<rparr>)),
      named_temporary_file = (\<lambda>r suffix. (r, Inr (''/tmp/tmpa1b2'' @ suffix))),
      tmp_write = (\<lambda>r path b. (r, None)),
      platform_guess_type = platform_excerpt\<rparr>"

definition world0 :: "nat world" where
  "world0 = \<lparr>outside = 0, files = {}, trace = []\<rparr>"

definition session0 :: session where
  "session0 =
     \<lparr>file_search_store = None, file_search_store_name = None,
      file_search_store_display_name = None, store_documents = None,
      store_docs_for = None, stores_list = None\<rparr>"

definition mk_store :: "string \<Rightarrow> store" where
  "mk_store n = \<lparr>name_attr = Some n, display_name_attr = Some n\<rparr>"

definition page_a :: "store list" where
  "page_a = map mk_store [''s1'', ''s2'', ''s3'', ''s4'', ''s5'']"

definition page_b :: "store list" where
  "page_b = map mk_store [''s6'', ''s7'', ''s8'', ''s9'', ''s10'']"

definition page_c :: "store list" where
  "page_c = map mk_store [''s11'', ''s12'']"

text \<open>
  Listing clients: three pages of sizes 5, 5 and 2 (and a document listing that
  fails); a cursor whose second advance raises (and a plain list of documents).
\<close>

definition three_pages :: "nat env" where
  "three_pages =
     idle\<lparr>file_search_stores_list :=
            (\<lambda>r n. (r, Inr (cursor_stub page_a [page_b, page_c] None))),
          documents_list := (\<lambda>r s n. (r, Inl ''unavailable''))\<rparr>"

definition doc_x :: document where
  "doc_x = \<lparr>doc_name_attr = Some ''documents/x'', doc_display_name_attr = Some ''x'',
            doc_create_time_attr = None, doc_update_time_attr = None\<rparr>"

definition second_advance_raises :: "nat env" where
  "second_advance_raises =
     idle\<lparr>file_search_stores_list :=
            (\<lambda>r n. (r, Inr (cursor_stub page_a [page_b] (Some ''timeout'')))),
          documents_list := (\<lambda>r s n. (r, Inr (Seq [doc_x, doc_x])))\<rparr>"

text \<open>
  A pager that has \<^verbatim>\<open>page\<close> and \<^verbatim>\<open>next_page\<close> but no
  \<^verbatim>\<open>has_next_page\<close>, holding two pages; advancing past the second raises.
\<close>

definition second_page :: "store pyobj" where
  "second_page = Obj [(''page'', page_b)] NoHasNextPage (NextPageRaises ''No more pages to fetch.'')"

definition pager_without_has_next_page :: "store pyobj" where
  "pager_without_has_next_page = Obj [(''page'', page_a)] NoHasNextPage (NextPage second_page)"

definition two_pages_no_has_next_page :: "nat env" where
  "two_pages_no_has_next_page =
     idle\<lparr>file_search_stores_list := (\<lambda>r n. (r, Inr pager_without_has_next_page))\<rparr>"

text \<open>Stores and sessions for the activation and deletion properties.\<close>

definition nameless :: store where
  "nameless = \<lparr>name_attr = Some '''', display_name_attr = Some ''draft''\<rparr>"

definition session_a :: session where
  "session_a =
     session0\<lparr>file_search_store := Some (mk_store ''fileSearchStores/a''),
              file_search_store_name := Some ''fileSearchStores/a'',
              file_search_store_display_name := Some ''fileSearchStores/a'',
              store_documents := Some [doc_x],
              store_docs_for := Some ''fileSearchStores/a'',
              stores_list := Some [mk_store ''fileSearchStores/a'', nameless]\<rparr>"

text \<open>A client whose delete of \<^verbatim>\<open>documents/b\<close> raises.\<close>

definition second_delete_raises :: "nat env" where
  "second_delete_raises =
     idle\<lparr>documents_delete :=
            (\<lambda>r n force. (Suc r, if n = ''documents/b'' then Some ''not found'' else None)),
          documents_list := (\<lambda>r s n. (r, Inr (Seq [doc_x])))\<rparr>"

text \<open>A client whose store delete raises.\<close>

definition delete_fails :: "nat env" where
  "delete_fails =
     idle\<lparr>file_search_stores_delete := (\<lambda>r n. (r, Some ''permission denied''))\<rparr>"

text \<open>
  Uploaded files, and clients for the upload loop: a disk that is full (every write to
  a temporary file raises); a disk on which only the second file's write raises; an
  import that is done at the third status call; an import that is never done; and
  operation handles that have no \<^verbatim>\<open>done\<close> attribute.
\<close>

definition file_a :: uploaded_file where
  "file_a = \<lparr>uf_name = ''a.txt'', uf_buffer = ''alpha''\<rparr>"

definition file_b :: uploaded_file where
  "file_b = \<lparr>uf_name = ''b.pdf'', uf_buffer = ''beta''\<rparr>"

definition disk_full :: "nat env" where
  "disk_full = idle\<lparr>tmp_write := (\<lambda>r path b. (r, Some ''No space left on device''))\<rparr>"

definition disk_full_second :: "nat env" where
  "disk_full_second =
     idle\<lparr>tmp_write :=
            (\<lambda>r path b. (r, if path = ''/tmp/tmpa1b2.pdf''
                            then Some ''No space left on device'' else None))\<rparr>"

definition pending :: operation where
  "pending = \<lparr>op_name = ''operations/1'', op_done = Some False\<rparr>"

definition done_at_third :: "nat env" where
  "done_at_third =
     idle\<lparr>upload_to_file_search_store := (\<lambda>r path s d. (r, Inr pending)),
          operations_get := (\<lambda>r operation. (Suc r, Inr (operation\<lparr>op_done := Some (2 \<le> r)\<rparr>)))\<rparr>"

definition never_done :: "nat env" where
  "never_done =
     idle\<lparr>upload_to_file_search_store := (\<lambda>r path s d. (r, Inr pending)),
          operations_get := (\<lambda>r operation. (Suc r, Inr pending))\<rparr>"

definition bare :: operation where
  "bare = \<lparr>op_name = ''operations/1'', op_done = None\<rparr>"

definition no_done_attribute :: "nat env" where
  "no_done_attribute =
     idle\<lparr>upload_to_file_search_store := (\<lambda>r path s d. (r, Inr bare)),
          operations_get := (\<lambda>r operation. (Suc r, Inr bare))\<rparr>"

definition upload_raises :: "nat env" where
  "upload_raises =
     idle\<lparr>upload_to_file_search_store := (\<lambda>r path s d. (r, Inl ''quota exceeded''))\<rparr>"

section \<open>Properties of the MIME resolver\<close>

lemma splitext_examples:
  "splitext ''report.pdf'' = (''report'', ''.pdf'')"
  "splitext ''.bashrc'' = (''.bashrc'', '''')"
  "splitext ''a/b.c/d'' = (''a/b.c/d'', '''')"
  "splitext ''archive.tar.gz'' = (''archive.tar'', ''.gz'')"
  "splitext ''dir/...x.y'' = (''dir/...x'', ''.y'')"
  by (simp_all add: splitext_def rfind_def)




section \<open>Properties of the pager drain\<close>

lemma advance_chain_first: "advance_chain pager = pager # tl (advance_chain pager)"
  by (induction pager rule: advance_chain.induct) simp_all

lemma drain_pages_chain:
  "drain_pages acc pager =
     acc @ concat (map (\<lambda>p. getattr p ''page'' []) (tl (advance_chain pager)))"
proof (induction pager arbitrary: acc rule: advance_chain.induct)
  case (1 at pager)
  have "concat (map (\<lambda>p. getattr p ''page'' []) (advance_chain pager)) =
          getattr pager ''page'' []
            @ concat (map (\<lambda>p. getattr p ''page'' []) (tl (advance_chain pager)))"
    by (subst advance_chain_first) simp
  with "1.IH" show ?case by simp
qed (simp_all split: has_next.splits)

lemma drain_eq_reference: "drain coll pager = drain_reference coll (Inr pager)"
proof (cases "hasattr pager ''page''")
  case True
  have "concat (map (\<lambda>p. getattr p ''page'' []) (advance_chain pager)) =
          getattr pager ''page'' []
            @ concat (map (\<lambda>p. getattr p ''page'' []) (tl (advance_chain pager)))"
    by (subst advance_chain_first) simp
  with True show ?thesis
    by (simp add: drain_def drain_reference_def drain_pages_chain)
next
  case False
  then show ?thesis
    by (simp add: drain_def drain_reference_def)
qed

lemma chain_cursor_stub:
  "concat (map (\<lambda>p. getattr p ''page'' []) (advance_chain (cursor_stub page pages failure))) =
     page @ concat pages"
  by (induction page pages failure rule: cursor_stub.induct) simp_all

lemma hasattr_cursor_stub: "hasattr (cursor_stub page pages failure) ''page''"
  by (induction page pages failure rule: cursor_stub.induct) simp_all

text \<open>
  Claim C3, as amended. Both listing functions return, for every outcome of the list
  call, what the reference drain returns, and they return in every case (the result
  type has no exception). For a result with a page attribute that is the current page
  followed by the page of each object reached by advancing, in order, where advancing
  goes on only while the object at hand has a has_next_page that answers true: so a
  cursor with a working has_next_page drains to all its pages in order, also when
  advancing past the last page obtained raises, while an object without has_next_page,
  or whose has_next_page raises, yields its current page only. A named or a plain
  collection is returned unchanged. When the list call itself raises, the result is
  the empty list, with one error message shown and nothing else done.
\<close>

theorem pager_drain_refines_reference:
  assumes "file_search_stores_list client (outside w) 20 = (r, res)"
    and "documents_list client (outside w) store 20 = (r', res')"
  shows "list_stores client w =
           (drain_reference ''stores'' res,
            emit (StoresList 20 #
                  (case warning_reference res of
                     None \<Rightarrow> []
                   | Some e \<Rightarrow> [Ui SidebarError (''Failed to list stores: '' @ e)]))
              (w\<lparr>outside := r\<rparr>))
       \<and> list_store_documents client store w =
           (drain_reference ''documents'' res',
            emit (DocumentsList store 20 #
                  (case warning_reference res' of
                     None \<Rightarrow> []
                   | Some e \<Rightarrow> [Ui StError (''Failed to list store files: '' @ e)]))
              (w\<lparr>outside := r'\<rparr>))
       \<and> drain_reference coll (Inr (cursor_stub page pages failure)) = page @ concat pages
       \<and> drain_reference coll (Inr (Obj ((''page'', page) # at) NoHasNextPage n)) = page
       \<and> drain_reference coll (Inr (Obj ((''page'', page) # at) (HasNextPageRaises e) n)) = page
       \<and> drain_reference coll (Inr (Obj ((''page'', page) # at) (HasNextPage True) NoNextPage))
           = page
       \<and> drain_reference ''stores'' (Inr (Obj [(''stores'', xs)] h n)) = xs
       \<and> drain_reference ''documents'' (Inr (Obj [(''documents'', xs)] h n)) = xs
       \<and> drain_reference coll (Inr (Seq xs)) = xs
       \<and> drain_reference coll (Inl e) = ([] :: 'a list)"
proof -
  have a: "list_stores client w =
          (drain_reference ''stores'' res,
           emit (StoresList 20 #
                 (case warning_reference res of
                    None \<Rightarrow> []
                  | Some e \<Rightarrow> [Ui SidebarError (''Failed to list stores: '' @ e)]))
             (w\<lparr>outside := r\<rparr>))"
    using assms(1)
    by (cases res)
      (simp_all add: list_stores_def drain_eq_reference warning_reference_def
        drain_reference_def)
  have b: "list_store_documents client store w =
          (drain_reference ''documents'' res',
           emit (DocumentsList store 20 #
                 (case warning_reference res' of
                    None \<Rightarrow> []
                  | Some e \<Rightarrow> [Ui StError (''Failed to list store files: '' @ e)]))
             (w\<lparr>outside := r'\<rparr>))"
    using assms(2)
    by (cases res')
      (simp_all add: list_store_documents_def drain_eq_reference warning_reference_def
        drain_reference_def)
  have c: "drain_reference coll (Inr (cursor_stub page pages failure)) = page @ concat pages"
    by (simp add: drain_reference_def hasattr_cursor_stub chain_cursor_stub)
  have d: "drain_reference coll (Inr (Obj ((''page'', page) # at) NoHasNextPage n)) = page"
    "drain_reference coll (Inr (Obj ((''page'', page) # at) (HasNextPageRaises e) n)) = page"
    "drain_reference coll (Inr (Obj ((''page'', page) # at) (HasNextPage True) NoNextPage))
       = page"
    "drain_reference ''stores'' (Inr (Obj [(''stores'', xs)] h n)) = xs"
    "drain_reference ''documents'' (Inr (Obj [(''documents'', xs)] h n)) = xs"
    "drain_reference coll (Inr (Seq xs)) = xs"
    "drain_reference coll (Inl e) = ([] :: 'a list)"
    by (simp_all add: drain_reference_def)
  show ?thesis
    using a b c d by simp
qed

theorem pager_drain_refines_reference_witness:
  "fst (list_stores three_pages world0) = page_a @ page_b @ page_c
   \<and> length (fst (list_stores three_pages world0)) = 12
   \<and> trace (snd (list_stores three_pages world0)) = [StoresList 20]
   \<and> fst (list_store_documents three_pages ''stores/x'' world0) = []
   \<and> trace (snd (list_store_documents three_pages ''stores/x'' world0)) =
       [DocumentsList ''stores/x'' 20, Ui StError ''Failed to list store files: unavailable'']
   \<and> fst (list_stores second_advance_raises world0) = page_a @ page_b
   \<and> fst (list_store_documents second_advance_raises ''stores/x'' world0) = [doc_x, doc_x]"
proof -
  have a: "file_search_stores_list three_pages (outside world0) 20 =
             (0, Inr (cursor_stub page_a [page_b, page_c] None))"
    "documents_list three_pages (outside world0) ''stores/x'' 20 = (0, Inl ''unavailable'')"
    by (simp_all add: three_pages_def idle_def world0_def)
  have b: "file_search_stores_list second_advance_raises (outside world0) 20 =
             (0, Inr (cursor_stub page_a [page_b] (Some ''timeout'')))"
    "documents_list second_advance_raises (outside world0) ''stores/x'' 20 =
       (0, Inr (Seq [doc_x, doc_x]))"
    by (simp_all add: second_advance_raises_def idle_def world0_def)
  have c: "length (page_a @ page_b @ page_c) = 12"
    by (simp add: page_a_def page_b_def page_c_def)
  have t: "trace world0 = []"
    by (simp add: world0_def)
  have w: "warning_reference (Inl ''unavailable'' :: exn + document pyobj) = Some ''unavailable''"
    "warning_reference (Inr p) = None" for p :: "'b pyobj"
    by (simp_all add: warning_reference_def)
  show ?thesis
    using pager_drain_refines_reference [OF a, THEN conjunct1]
      pager_drain_refines_reference [OF a, THEN conjunct2, THEN conjunct1]
      pager_drain_refines_reference [OF b, THEN conjunct1]
      pager_drain_refines_reference [OF b, THEN conjunct2, THEN conjunct1]
      c
    by (simp add: emit_def t w drain_reference_def)
qed

text \<open>
  Claim C3 as stated fails for a result that has a page attribute and further pages
  but no \<^verbatim>\<open>has_next_page\<close>: the loop guard asks for the attribute first, so the
  listing is the first page only, although a second page of five stores remains.
\<close>

theorem pager_drain_counterexample:
  "hasattr pager_without_has_next_page ''page''
   \<and> pager_without_has_next_page = Obj [(''page'', page_a)] NoHasNextPage (NextPage second_page)
   \<and> getattr second_page ''page'' [] = page_b
   \<and> length page_b = 5
   \<and> fst (list_stores two_pages_no_has_next_page world0) = page_a
   \<and> length (fst (list_stores two_pages_no_has_next_page world0)) = 5"
  by (simp add: pager_without_has_next_page_def second_page_def page_a_def page_b_def
      list_stores_def two_pages_no_has_next_page_def idle_def world0_def drain_def)

section \<open>Properties of store activation and deletion\<close>

text \<open>
  Claim C7, as amended. Activation changes the session only when the selected store's
  identifier is not empty and differs from the active one: then no exception leaves the
  block, the store becomes the active one, and the document list is loaded again from
  the service and tagged with the new identifier. Selecting the store that is already
  active changes nothing in the session and makes no remote call, and so does selecting
  a store whose identifier is empty; only the "Active store" message is shown.
\<close>

theorem activation_effect:
  "(name_attr sel = Some n \<and> n \<noteq> '''' \<and> file_search_store_name ss \<noteq> Some n \<longrightarrow>
      activate client (Some sel) (ss, w) =
        (None,
         ss\<lparr>file_search_store := Some sel,
            file_search_store_name := Some n,
            file_search_store_display_name := Some (safe_get (display_name_attr sel) ''''),
            store_documents := Some (fst (list_store_documents client n w)),
            store_docs_for := Some n\<rparr>,
         emit [Ui SidebarSuccess (''Active store: '' @ n)]
           (snd (list_store_documents client n w))))
   \<and> (name_attr sel = Some n \<and> file_search_store_name ss = Some n \<longrightarrow>
      activate client (Some sel) (ss, w) =
        (None, ss, emit [Ui SidebarSuccess (''Active store: '' @ n)] w))
   \<and> (safe_get (name_attr sel) '''' = '''' \<longrightarrow>
      activate client (Some sel) (ss, w) =
        (None, ss, emit [Ui SidebarSuccess ''Active store: ''] w))"
  by (auto simp: activate_def ensure_store_in_state_def safe_get_def Let_def
      split: option.splits prod.splits)

theorem activation_effect_witness:
  "activate idle (Some (mk_store ''fileSearchStores/b'')) (session_a, world0) =
     (None,
      session_a\<lparr>file_search_store := Some (mk_store ''fileSearchStores/b''),
                file_search_store_name := Some ''fileSearchStores/b'',
                file_search_store_display_name := Some ''fileSearchStores/b'',
                store_documents := Some [],
                store_docs_for := Some ''fileSearchStores/b''\<rparr>,
      world0\<lparr>trace := [DocumentsList ''fileSearchStores/b'' 20,
                        Ui SidebarSuccess ''Active store: fileSearchStores/b'']\<rparr>)
   \<and> activate idle (Some (mk_store ''fileSearchStores/a'')) (session_a, world0) =
     (None, session_a, world0\<lparr>trace := [Ui SidebarSuccess ''Active store: fileSearchStores/a'']\<rparr>)
   \<and> activate idle (Some nameless) (session_a, world0) =
     (None, session_a, world0\<lparr>trace := [Ui SidebarSuccess ''Active store: '']\<rparr>)"
proof -
  have l: "list_store_documents idle ''fileSearchStores/b'' world0 =
             ([], world0\<lparr>trace := [DocumentsList ''fileSearchStores/b'' 20]\<rparr>)"
    by (simp add: list_store_documents_def idle_def world0_def emit_def drain_def)
  have t: "trace world0 = []"
    by (simp add: world0_def)
  show ?thesis
    using activation_effect [of "mk_store ''fileSearchStores/b''" "''fileSearchStores/b''" session_a idle world0]
      activation_effect [of "mk_store ''fileSearchStores/a''" "''fileSearchStores/a''" session_a idle world0]
      activation_effect [of nameless "''''" session_a idle world0]
    by (simp add: l t mk_store_def nameless_def session_a_def session0_def safe_get_def emit_def)
qed

text \<open>
  Claim C7 as stated fails for a store with an empty identifier: the identifier differs
  from the active one, yet the session is unchanged and nothing is loaded.
\<close>

theorem activation_counterexample:
  "safe_get (name_attr nameless) '''' \<noteq> safe_get (file_search_store_name session_a) ''''
   \<and> fst (snd (activate three_pages (Some nameless) (session_a, world0))) = session_a
   \<and> remote_calls (trace (snd (snd (activate three_pages (Some nameless) (session_a, world0))))) = []"
  by (simp add: activate_def nameless_def session_a_def session0_def safe_get_def emit_def
      world0_def remote_calls_def)

lemma list_stores_trace:
  "\<exists>ui. trace (snd (list_stores client w)) = trace w @ StoresList 20 # ui
        \<and> remote_calls ui = []"
  by (auto simp: list_stores_def emit_def remote_calls_def split: prod.splits sum.splits)

text \<open>
  Claim C4, as amended. With an empty identifier the delete action shows the validation
  error and does nothing else: no remote call, and the session, its store list included,
  is unchanged. With a non-empty identifier there is exactly one remote delete, followed,
  whether it raised or not, by exactly one listing of the stores whose result replaces
  the cached store list; the active store and the document caches are cleared only when
  the delete succeeded and the deleted store was the active one.
\<close>

theorem delete_active_store_effect:
  "(safe_get (name_attr sel) '''' = '''' \<longrightarrow>
      delete_active_store client True (Some sel) (ss, w) =
        (ss, emit [Ui SidebarError ''No store resource name available for deletion.''] w))
   \<and> (name_attr sel = Some n \<and> n \<noteq> '''' \<and>
       file_search_stores_delete client (outside w) n = (r, raised) \<longrightarrow>
      delete_active_store client True (Some sel) (ss, w) =
        (let w2 = emit [StoresDelete n,
                        case raised of
                          None \<Rightarrow> Ui SidebarSuccess (''Deleted store: '' @ n)
                        | Some e1 \<Rightarrow> Ui SidebarError (''Failed to delete store: '' @ e1)]
                    (w\<lparr>outside := r\<rparr>)
         in ((if raised = None \<and> file_search_store_name ss = Some n
              then pop_store_keys ss else ss)
               \<lparr>stores_list := Some (fst (list_stores client w2))\<rparr>,
             snd (list_stores client w2)))
      \<and> remote_calls (trace (snd (delete_active_store client True (Some sel) (ss, w)))) =
          remote_calls (trace w) @ [StoresDelete n, StoresList 20])"
proof -
  have a: "safe_get (name_attr sel) '''' = '''' \<longrightarrow>
      delete_active_store client True (Some sel) (ss, w) =
        (ss, emit [Ui SidebarError ''No store resource name available for deletion.''] w)"
    by (simp add: delete_active_store_def)
  have b: "delete_active_store client True (Some sel) (ss, w) =
        (let w2 = emit [StoresDelete n,
                        case raised of
                          None \<Rightarrow> Ui SidebarSuccess (''Deleted store: '' @ n)
                        | Some e1 \<Rightarrow> Ui SidebarError (''Failed to delete store: '' @ e1)]
                    (w\<lparr>outside := r\<rparr>)
         in ((if raised = None \<and> file_search_store_name ss = Some n
              then pop_store_keys ss else ss)
               \<lparr>stores_list := Some (fst (list_stores client w2))\<rparr>,
             snd (list_stores client w2)))"
    if h: "name_attr sel = Some n" "n \<noteq> ''''"
      "file_search_stores_delete client (outside w) n = (r, raised)"
    using h
    by (cases raised)
      (simp_all add: delete_active_store_def safe_get_def emit_def Let_def split: prod.splits)
  have c: "remote_calls (trace (snd (delete_active_store client True (Some sel) (ss, w)))) =
          remote_calls (trace w) @ [StoresDelete n, StoresList 20]"
    if h: "name_attr sel = Some n" "n \<noteq> ''''"
      "file_search_stores_delete client (outside w) n = (r, raised)"
  proof -
    define w2 where "w2 = emit [StoresDelete n,
                        case raised of
                          None \<Rightarrow> Ui SidebarSuccess (''Deleted store: '' @ n)
                        | Some e1 \<Rightarrow> Ui SidebarError (''Failed to delete store: '' @ e1)]
                    (w\<lparr>outside := r\<rparr>)"
    obtain ui where ui: "trace (snd (list_stores client w2)) = trace w2 @ StoresList 20 # ui"
      "remote_calls ui = []"
      using list_stores_trace [of client w2] by blast
    have "remote_calls (trace w2) = remote_calls (trace w) @ [StoresDelete n]"
      by (cases raised) (simp_all add: w2_def emit_def remote_calls_def)
    then show ?thesis
      using b [OF h] ui by (simp add: w2_def [symmetric] Let_def remote_calls_def)
  qed
  show ?thesis using a b c by blast
qed



theorem delete_active_store_effect_witness:
  "delete_active_store idle True (Some nameless) (session_a, world0) =
     (session_a,
      world0\<lparr>trace := [Ui SidebarError ''No store resource name available for deletion.'']\<rparr>)
   \<and> delete_active_store three_pages True (Some (mk_store ''fileSearchStores/a''))
        (session_a, world0) =
     ((pop_store_keys session_a)\<lparr>stores_list := Some (page_a @ page_b @ page_c)\<rparr>,
      world0\<lparr>trace := [StoresDelete ''fileSearchStores/a'',
                        Ui SidebarSuccess ''Deleted store: fileSearchStores/a'',
                        StoresList 20]\<rparr>)
   \<and> delete_active_store delete_fails True (Some (mk_store ''fileSearchStores/a''))
        (session_a, world0) =
     (session_a\<lparr>stores_list := Some []\<rparr>,
      world0\<lparr>trace := [StoresDelete ''fileSearchStores/a'',
                        Ui SidebarError ''Failed to delete store: permission denied'',
                        StoresList 20]\<rparr>)"
proof -
  have n: "safe_get (name_attr nameless) '''' = ''''"
    "name_attr (mk_store ''fileSearchStores/a'') = Some ''fileSearchStores/a''"
    "file_search_store_name session_a = Some ''fileSearchStores/a''"
    by (simp_all add: nameless_def safe_get_def mk_store_def session_a_def)
  have d: "file_search_stores_delete three_pages (outside world0) ''fileSearchStores/a'' = (0, None)"
    "file_search_stores_delete delete_fails (outside world0) ''fileSearchStores/a'' =
       (0, Some ''permission denied'')"
    by (simp_all add: three_pages_def delete_fails_def idle_def world0_def)
  have l: "list_stores three_pages w = (page_a @ page_b @ page_c, emit [StoresList 20] w)"
    "list_stores delete_fails w = ([], emit [StoresList 20] w)" for w :: "nat world"
    by (simp_all add: list_stores_def three_pages_def delete_fails_def idle_def drain_def emit_def)
  have t: "trace world0 = []" "world0\<lparr>outside := 0\<rparr> = world0"
    by (simp_all add: world0_def)
  show ?thesis
    using delete_active_store_effect [of nameless idle session_a world0 "''''" 0 None]
      delete_active_store_effect [of "mk_store ''fileSearchStores/a''" three_pages session_a
        world0 "''fileSearchStores/a''" 0 None]
      delete_active_store_effect [of "mk_store ''fileSearchStores/a''" delete_fails session_a
        world0 "''fileSearchStores/a''" 0 "Some ''permission denied''"]
    by (simp add: n d l t emit_def)
qed

text \<open>
  Claim C4 as stated fails on the validation path: the refresh stands inside the
  \<^verbatim>\<open>else\<close> branch, so with an empty identifier the cached store list stays as
  it was and no listing call is made, although the service would list twelve stores.
\<close>

theorem delete_active_store_counterexample:
  "safe_get (name_attr nameless) '''' = ''''
   \<and> stores_list (fst (delete_active_store three_pages True (Some nameless) (session_a, world0))) =
       Some [mk_store ''fileSearchStores/a'', nameless]
   \<and> trace (snd (delete_active_store three_pages True (Some nameless) (session_a, world0))) =
       [Ui SidebarError ''No store resource name available for deletion.'']
   \<and> fst (list_stores three_pages world0) = page_a @ page_b @ page_c"
  by (simp add: delete_active_store_def nameless_def safe_get_def session_a_def session0_def
      emit_def world0_def list_stores_def three_pages_def idle_def drain_def)




section \<open>Properties of the batch delete\<close>

lemma list_store_documents_trace:
  "\<exists>ui. trace (snd (list_store_documents client s w)) = trace w @ DocumentsList s 20 # ui
        \<and> remote_calls ui = []"
  by (auto simp: list_store_documents_def emit_def remote_calls_def split: prod.splits sum.splits)

lemma length_delete_outcomes [simp]:
  "length (delete_outcomes client r names) = length names"
  by (induction names arbitrary: r) simp_all

lemma delete_loop_eq:
  "delete_loop client names (results, w) =
     (results @ map2 delete_record names (delete_outcomes client (outside w) names),
      w\<lparr>outside := outside_after_deletes client (outside w) names,
        trace := trace w @ map (\<lambda>n. DocumentsDelete n True) names\<rparr>)"
proof (induction names arbitrary: results w)
  case Nil
  show ?case by simp
next
  case (Cons doc_name rest)
  obtain r raised where d: "documents_delete client (outside w) doc_name True = (r, raised)"
    by (cases "documents_delete client (outside w) doc_name True")
  show ?case
    by (cases raised) (simp_all add: d Cons.IH emit_def delete_record_def)
qed

lemma remote_calls_append [simp]:
  "remote_calls (xs @ ys) = remote_calls xs @ remote_calls ys"
  by (simp add: remote_calls_def)

lemma remote_calls_deletes [simp]:
  "remote_calls (map (\<lambda>n. DocumentsDelete n True) names) = map (\<lambda>n. DocumentsDelete n True) names"
  by (induction names) (simp_all add: remote_calls_def)

lemma document_keys:
  "length outcomes = length names \<Longrightarrow>
   map (\<lambda>r. map_of r ''document'') (map2 delete_record names outcomes) = map Some names"
  by (induction names outcomes rule: list_induct2') (simp_all add: delete_record_def)

text \<open>
  Claim C5. When the delete action runs (a click with a non-empty selection), every
  selected identifier gets exactly one remote delete with \<^verbatim>\<open>force\<close> set, in
  order; the results have one entry per identifier, in order, each marked deleted or
  error with the message according to the outcome of its own delete only; and after the
  last delete there is exactly one listing of the documents of the active store, whose
  result replaces the document cache, whatever the outcomes were.
\<close>

theorem batch_delete_effect:
  assumes "selected_doc_names \<noteq> []"
  shows "\<exists>results w1 w'.
           w1 = w\<lparr>outside := outside_after_deletes client (outside w) selected_doc_names,
                  trace := trace w @ map (\<lambda>n. DocumentsDelete n True) selected_doc_names\<rparr>
         \<and> delete_documents client True selected_doc_names store_name (ss, w) =
             (Some results,
              ss\<lparr>store_documents := Some (fst (list_store_documents client store_name w1))\<rparr>,
              w')
         \<and> results = map2 delete_record selected_doc_names
                       (delete_outcomes client (outside w) selected_doc_names)
         \<and> length results = length selected_doc_names
         \<and> map (\<lambda>r. map_of r ''document'') results = map Some selected_doc_names
         \<and> remote_calls (trace w') =
             remote_calls (trace w) @ map (\<lambda>n. DocumentsDelete n True) selected_doc_names
               @ [DocumentsList store_name 20]"
proof -
  define w1 where
    "w1 = w\<lparr>outside := outside_after_deletes client (outside w) selected_doc_names,
            trace := trace w @ map (\<lambda>n. DocumentsDelete n True) selected_doc_names\<rparr>"
  define results where
    "results = map2 delete_record selected_doc_names
                 (delete_outcomes client (outside w) selected_doc_names)"
  obtain ui where ui:
    "trace (snd (list_store_documents client store_name w1)) =
       trace w1 @ DocumentsList store_name 20 # ui"
    "remote_calls ui = []"
    using list_store_documents_trace [of client store_name w1] by blast
  have loop: "delete_loop client selected_doc_names ([], w) = (results, w1)"
    by (simp add: delete_loop_eq results_def w1_def)
  have run: "delete_documents client True selected_doc_names store_name (ss, w) =
      (Some results,
       ss\<lparr>store_documents := Some (fst (list_store_documents client store_name w1))\<rparr>,
       emit [Ui StSuccess ''Deletion attempted. See results below.'']
         (snd (list_store_documents client store_name w1)))"
    using assms by (simp add: delete_documents_def loop split: prod.splits)
  have calls: "remote_calls (trace (emit [Ui StSuccess ''Deletion attempted. See results below.'']
         (snd (list_store_documents client store_name w1)))) =
      remote_calls (trace w) @ map (\<lambda>n. DocumentsDelete n True) selected_doc_names
        @ [DocumentsList store_name 20]"
    using ui by (simp add: emit_def w1_def) (simp add: remote_calls_def)
  have keys: "map (\<lambda>r. map_of r ''document'') results = map Some selected_doc_names"
    unfolding results_def by (rule document_keys) simp
  show ?thesis
    using run calls keys by (auto simp: w1_def results_def)
qed

theorem batch_delete_effect_witness:
  "[''documents/a'', ''documents/b'', ''documents/c''] \<noteq> []
   \<and> fst (delete_documents second_delete_raises True
            [''documents/a'', ''documents/b'', ''documents/c''] ''fileSearchStores/a''
            (session_a, world0)) =
       Some [[(''document'', ''documents/a''), (''status'', ''deleted'')],
             [(''document'', ''documents/b''), (''status'', ''error: not found'')],
             [(''document'', ''documents/c''), (''status'', ''deleted'')]]
   \<and> remote_calls (trace (snd (snd (delete_documents second_delete_raises True
            [''documents/a'', ''documents/b'', ''documents/c''] ''fileSearchStores/a''
            (session_a, world0))))) =
       [DocumentsDelete ''documents/a'' True, DocumentsDelete ''documents/b'' True,
        DocumentsDelete ''documents/c'' True, DocumentsList ''fileSearchStores/a'' 20]"
proof -
  have ne: "[''documents/a'', ''documents/b'', ''documents/c''] \<noteq> []"
    by simp
  have o: "documents_delete second_delete_raises =
             (\<lambda>r n force. (Suc r, if n = ''documents/b'' then Some ''not found'' else None))"
    by (simp add: second_delete_raises_def idle_def)
  have t: "trace world0 = []"
    by (simp add: world0_def)
  show ?thesis
    using batch_delete_effect [OF ne, of world0 second_delete_raises "''fileSearchStores/a''" session_a]
    by (auto simp: o t delete_record_def remote_calls_def)
qed

section \<open>Properties of the query\<close>

lemma submitted_configs_append [simp]:
  "submitted_configs (xs @ ys) = submitted_configs xs @ submitted_configs ys"
  by (induction xs rule: submitted_configs.induct) simp_all

lemma str_strip_examples:
  "str_strip ''  Acme Corp  '' = ''Acme Corp''"
  "str_strip ([CHR 0xC2, CHR 0xA0] @ ''Acme'' @ [CHR 0xE3, CHR 0x80, CHR 0x80, CHR 0x0A]) = ''Acme''"
  "str_strip [CHR 0xC2, CHR 0xA0, CHR 0x20, CHR 0xE2, CHR 0x80, CHR 0x83] = []"
  by (simp_all add: str_strip_def whitespace_def)

lemma blank_question_makes_no_call:
  "ask_question client True [CHR 0xC2, CHR 0xA0] model_name use_default_prompt
     (Some ''fileSearchStores/a'') w =
   emit [Ui StWarning ''Please enter a question.''] w"
  by (simp add: ask_question_def falsy_def str_strip_def whitespace_def)

text \<open>
  Claim C6. For a question that is not empty after trimming, asked with an active
  store, exactly one configuration is submitted to the chat-completion call. Its tools
  entry is the single file-search tool scoped to the list holding exactly the active
  store's identifier. It has a system-instruction key if and only if
  \<open>use_default_prompt\<close> is true, and then the instruction is a text that contains
  "Input: " followed by the trimmed question.
\<close>

theorem query_configuration:
  assumes "str_strip question \<noteq> ''''" and "store_name \<noteq> ''''"
  shows "\<exists>config.
           submitted_configs
             (trace (ask_question client True question model_name use_default_prompt
                       (Some store_name) w)) = submitted_configs (trace w) @ [config]
         \<and> dict_get config ''tools'' =
             Some (JList [JDict [(''file_search'',
                                  JDict [(''file_search_store_names'', JList [JStr store_name])])]])
         \<and> ((dict_get config ''system_instruction'' \<noteq> None) = use_default_prompt)
         \<and> (use_default_prompt \<longrightarrow>
              (\<exists>text. dict_get config ''system_instruction'' = Some (JStr text)
                     \<and> sublist (''Input: '' @ str_strip question) text))"
proof (cases use_default_prompt)
  case True
  have "sublist (''Input: '' @ str_strip question)
          (prompt_text @ ''Input: '' @ str_strip question)"
    by (metis sublist_appendI append_Nil2)
  with True assms show ?thesis
    by (auto simp: ask_question_def falsy_def safe_get_def emit_def Let_def
        split: prod.splits sum.splits)
next
  case False
  with assms show ?thesis
    by (auto simp: ask_question_def falsy_def safe_get_def emit_def Let_def
        split: prod.splits sum.splits)
qed

theorem query_configuration_witness:
  "str_strip ''  Acme Corp  '' = ''Acme Corp''
   \<and> submitted_configs (trace (ask_question idle True ''  Acme Corp  '' ''gemini-2.5-flash'' True
                                 (Some ''fileSearchStores/a'') world0)) =
       [JDict [(''tools'', JList [JDict [(''file_search'',
                  JDict [(''file_search_store_names'', JList [JStr ''fileSearchStores/a''])])]]),
               (''system_instruction'', JStr (prompt_text @ ''Input: Acme Corp''))]]
   \<and> submitted_configs (trace (ask_question idle True ''  Acme Corp  '' ''gemini-2.5-flash'' False
                                 (Some ''fileSearchStores/a'') world0)) =
       [JDict [(''tools'', JList [JDict [(''file_search'',
                  JDict [(''file_search_store_names'', JList [JStr ''fileSearchStores/a''])])]])]]"
proof -
  have s: "str_strip ''  Acme Corp  '' = ''Acme Corp''"
    by (simp add: str_strip_def whitespace_def)
  have ne: "str_strip ''  Acme Corp  '' \<noteq> ''''" "''fileSearchStores/a'' \<noteq> ''''"
    by (simp_all add: s)
  have t: "trace world0 = []" "outside world0 = 0"
    by (simp_all add: world0_def)
  have g: "generate_content idle = (\<lambda>r m c cfg. (r, Inr \<lparr>text_attr = Some ''{}''\<rparr>))"
    by (simp add: idle_def)
  show ?thesis
    using query_configuration [OF ne, of idle "''gemini-2.5-flash''" True world0]
      query_configuration [OF ne, of idle "''gemini-2.5-flash''" False world0]
    by (simp add: s t g ask_question_def falsy_def safe_get_def emit_def)
qed

section \<open>Properties of upload and import\<close>

lemma sleeps_append [simp]: "sleeps (xs @ ys) = sleeps xs @ sleeps ys"
  by (induction xs rule: sleeps.induct) simp_all

lemma poll_done: "getattr_done operation \<Longrightarrow> poll client operation w = Some (Inr operation, w)"
  by (subst poll.simps) simp

lemma poll_step:
  "\<not> getattr_done operation \<Longrightarrow>
   poll client operation w =
     (case operations_get client (outside w) operation of
        (r, Inl e) \<Rightarrow> Some (Inl e, emit [Sleep 2, OperationsGet operation] (w\<lparr>outside := r\<rparr>))
      | (r, Inr operation') \<Rightarrow>
          poll client operation' (emit [Sleep 2, OperationsGet operation] (w\<lparr>outside := r\<rparr>)))"
  by (subst poll.simps) (simp add: emit_def split: prod.splits sum.splits)

lemma poll_done_after:
  "done_after k client operation (outside w) \<Longrightarrow>
   \<exists>operation' w'. poll client operation w = Some (Inr operation', w')
      \<and> getattr_done operation'
      \<and> sleeps (trace w') = sleeps (trace w) @ replicate k 2
      \<and> files w' = files w"
proof (induction k arbitrary: operation w)
  case 0
  then show ?case by (simp add: poll_done)
next
  case (Suc k)
  from Suc.prems have nd: "\<not> getattr_done operation"
    by (simp split: if_splits)
  obtain r res where g: "operations_get client (outside w) operation = (r, res)"
    by (cases "operations_get client (outside w) operation")
  with Suc.prems nd obtain operation' where res: "res = Inr operation'"
    and d: "done_after k client operation' r"
    by (cases res) simp_all
  define w2 where "w2 = emit [Sleep 2, OperationsGet operation] (w\<lparr>outside := r\<rparr>)"
  have o: "outside w2 = r" "files w2 = files w" "sleeps (trace w2) = sleeps (trace w) @ [2]"
    by (simp_all add: w2_def emit_def)
  from Suc.IH [of operation' w2] d o
  obtain operation'' w' where p: "poll client operation' w2 = Some (Inr operation'', w')"
    "getattr_done operation''" "sleeps (trace w') = sleeps (trace w2) @ replicate k 2"
    "files w' = files w2"
    by auto
  have "poll client operation w = poll client operation' w2"
    by (simp add: poll_step [OF nd] g res w2_def)
  with p o show ?case
    by (simp add: replicate_append_same)
qed

lemma poll_Some_halts:
  assumes a: "poll client operation w = Some res"
  shows "\<exists>k. halts_within k client operation (outside w)"
proof (rule poll.raw_induct
    [where P = "\<lambda>client operation w res. \<exists>k. halts_within k client operation (outside w)",
      OF _ a], goal_cases)
  case (1 p c operation w y)
  show ?case
  proof (cases "getattr_done operation")
    case True
    then have "halts_within 0 c operation (outside w)" by simp
    then show ?thesis ..
  next
    case False
    obtain r res' where g: "operations_get c (outside w) operation = (r, res')"
      by (cases "operations_get c (outside w) operation")
    show ?thesis
    proof (cases res')
      case (Inl e)
      with g False have "halts_within (Suc 0) c operation (outside w)" by simp
      then show ?thesis ..
    next
      case (Inr operation')
      with 1(2) False g
      have "p c operation'
              (emit [OperationsGet operation] ((emit [Sleep 2] w)\<lparr>outside := r\<rparr>)) = Some y"
        by (simp add: emit_def)
      from 1(1) [OF this] obtain k where "halts_within k c operation' r"
        by (auto simp: emit_def)
      with g Inr False have "halts_within (Suc k) c operation (outside w)" by simp
      then show ?thesis ..
    qed
  qed
qed

lemma poll_never_halts:
  "\<forall>k. \<not> halts_within k client operation (outside w) \<Longrightarrow> poll client operation w = None"
  using poll_Some_halts [of client operation w] by (cases "poll client operation w") auto



lemma write_temp_Inr:
  "write_temp client f w = (Inr temp_path, w1) \<Longrightarrow>
   files w1 = insert temp_path (files w) \<and> sleeps (trace w1) = sleeps (trace w)"
  by (auto simp: write_temp_def emit_def Let_def split: prod.splits sum.splits option.splits)

text \<open>
  Claim C9. Take one file whose temporary file is written and whose upload call returns
  an operation handle. If the handle's done flag is true after \<open>k\<close> status calls, none
  of which raises, then the iteration for that file returns: it appends the success
  record whose display name is the filename without its extension, it has slept exactly
  \<open>k\<close> times, 2 time units each, and the temporary file is gone. There is no bound on
  \<open>k\<close> and no timeout: if the flag never becomes true and no status call raises, the
  iteration never returns.
\<close>

theorem upload_completes_when_done:
  assumes wt: "write_temp client f w = (Inr temp_path, w1)"
    and up: "upload_to_file_search_store client (outside w1) temp_path store_name
               (fst (splitext (uf_name f))) = (r, Inr operation)"
  shows "(done_after k client operation r \<longrightarrow>
            (\<exists>v' w'. upload_one client store_name f (v, w) = Some (None, v', w')
               \<and> v_results v' = v_results v @
                    [[(''file'', uf_name f),
                      (''display_name'', fst (splitext (uf_name f))),
                      (''mime_type'', guess_mime (platform_guess_type client) (uf_name f)),
                      (''status'', ''success'')]]
               \<and> sleeps (trace w') = sleeps (trace w) @ replicate k 2
               \<and> files w' = files w - {temp_path}))
       \<and> ((\<forall>n. \<not> halts_within n client operation r) \<longrightarrow>
            upload_one client store_name f (v, w) = None)"
proof -
  define display_name where "display_name = fst (splitext (uf_name f))"
  define mime_type where "mime_type = guess_mime (platform_guess_type client) (uf_name f)"
  define w2 where
    "w2 = emit [UploadToFileSearchStore temp_path store_name display_name]
            ((emit [Ui StWrite (''Uploading to File Search store: '' @ uf_name f
                                 @ '' (detected mime: '' @ mime_type @ '')''),
                    Ui StWrite (''Uploading & importing into File Search store: ''
                                 @ store_name @ '' (display name: '' @ display_name
                                 @ '')'')] w1)\<lparr>outside := r\<rparr>)"
  have o: "outside w2 = r" "files w2 = files w1" "sleeps (trace w2) = sleeps (trace w1)"
    by (simp_all add: w2_def emit_def)
  have body: "try_body client store_name f (v, w) =
      (case poll client operation w2 of
         None \<Rightarrow> None
       | Some (Inl e, w3) \<Rightarrow>
           Some (Some e, v\<lparr>v_temp_path := Some temp_path, v_display_name := Some display_name,
                           v_mime_type := Some mime_type\<rparr>, w3)
       | Some (Inr operation', w3) \<Rightarrow>
           Some (None,
                 v\<lparr>v_temp_path := Some temp_path, v_display_name := Some display_name,
                   v_mime_type := Some mime_type,
                   v_results := v_results v @ [success_record (uf_name f) display_name mime_type]\<rparr>,
                 emit [Ui StSuccess (''Indexed: '' @ uf_name f)] w3))"
    using up
    by (simp add: try_body_def wt Let_def emit_def w2_def display_name_def mime_type_def
        split: option.splits prod.splits sum.splits)
  have fin: "\<exists>v' w'. upload_one client store_name f (v, w) = Some (None, v', w')
               \<and> v_results v' = v_results v @
                    [[(''file'', uf_name f), (''display_name'', display_name),
                      (''mime_type'', mime_type), (''status'', ''success'')]]
               \<and> sleeps (trace w') = sleeps (trace w) @ replicate k 2
               \<and> files w' = files w - {temp_path}"
    if d: "done_after k client operation r"
  proof -
    from poll_done_after [of k client operation w2] d o
    obtain operation' w3 where p: "poll client operation w2 = Some (Inr operation', w3)"
      "sleeps (trace w3) = sleeps (trace w2) @ replicate k 2" "files w3 = files w2"
      by auto
    show ?thesis
      using write_temp_Inr [OF wt] o p
      by (simp add: upload_one_def body finally_remove_def emit_def success_record_def)
  qed
  have never: "upload_one client store_name f (v, w) = None"
    if n: "\<forall>n. \<not> halts_within n client operation r"
  proof -
    have "poll client operation w2 = None"
      using n o by (intro poll_never_halts) simp
    then show ?thesis
      by (simp add: upload_one_def body)
  qed
  show ?thesis
    using fin never by (auto simp: display_name_def mime_type_def)
qed

lemma never_done_never_halts: "\<not> halts_within n never_done pending r"
  by (induction n arbitrary: r) (simp_all add: never_done_def pending_def getattr_done_def)

theorem upload_completes_when_done_witness:
  "done_after 3 done_at_third pending 0
   \<and> (\<exists>v' w'. upload_one done_at_third ''fileSearchStores/a'' file_a (unbound, world0) =
                 Some (None, v', w')
        \<and> v_results v' =
            [[(''file'', ''a.txt''), (''display_name'', ''a''), (''mime_type'', ''text/plain''),
              (''status'', ''success'')]]
        \<and> sleeps (trace w') = [2, 2, 2]
        \<and> files w' = {})
   \<and> (\<forall>n. \<not> halts_within n never_done pending 0)
   \<and> upload_one never_done ''fileSearchStores/a'' file_a (unbound, world0) = None"
proof -
  have sp: "splitext ''a.txt'' = (''a'', ''.txt'')"
    by (simp add: splitext_def rfind_def)
  have gm: "guess_mime platform_excerpt ''a.txt'' = ''text/plain''"
    by (simp add: guess_mime_def falsy_def platform_excerpt_def mimetypes_guess_type_def sp
        str_lower_def lower_char_def)
  have wt: "write_temp done_at_third file_a world0 =
      (Inr ''/tmp/tmpa1b2.txt'',
       world0\<lparr>files := {''/tmp/tmpa1b2.txt''},
              trace := [NamedTemporaryFile ''.txt'', TmpWrite ''/tmp/tmpa1b2.txt'' ''alpha'']\<rparr>)"
    "write_temp never_done file_a world0 =
      (Inr ''/tmp/tmpa1b2.txt'',
       world0\<lparr>files := {''/tmp/tmpa1b2.txt''},
              trace := [NamedTemporaryFile ''.txt'', TmpWrite ''/tmp/tmpa1b2.txt'' ''alpha'']\<rparr>)"
    by (simp_all add: write_temp_def done_at_third_def never_done_def idle_def file_a_def sp
        world0_def emit_def Let_def)
  have up: "upload_to_file_search_store done_at_third
              (outside (world0\<lparr>files := {''/tmp/tmpa1b2.txt''},
                 trace := [NamedTemporaryFile ''.txt'', TmpWrite ''/tmp/tmpa1b2.txt'' ''alpha'']\<rparr>))
              ''/tmp/tmpa1b2.txt'' ''fileSearchStores/a'' (fst (splitext (uf_name file_a))) =
            (0, Inr pending)"
    "upload_to_file_search_store never_done
              (outside (world0\<lparr>files := {''/tmp/tmpa1b2.txt''},
                 trace := [NamedTemporaryFile ''.txt'', TmpWrite ''/tmp/tmpa1b2.txt'' ''alpha'']\<rparr>))
              ''/tmp/tmpa1b2.txt'' ''fileSearchStores/a'' (fst (splitext (uf_name file_a))) =
            (0, Inr pending)"
    by (simp_all add: done_at_third_def never_done_def idle_def world0_def)
  have d: "done_after 3 done_at_third pending 0"
    by (simp add: eval_nat_numeral done_at_third_def idle_def pending_def getattr_done_def)
  have n: "\<forall>n. \<not> halts_within n never_done pending 0"
    by (simp add: never_done_never_halts)
  have pg: "platform_guess_type done_at_third = platform_excerpt"
    by (simp add: done_at_third_def idle_def)
  have misc: "uf_name file_a = ''a.txt''" "v_results unbound = []" "trace world0 = []"
    "files world0 = {}"
    by (simp_all add: file_a_def unbound_def world0_def)
  obtain v' w' where r:
    "upload_one done_at_third ''fileSearchStores/a'' file_a (unbound, world0) = Some (None, v', w')"
    "v_results v' = [[(''file'', ''a.txt''), (''display_name'', ''a''),
                      (''mime_type'', ''text/plain''), (''status'', ''success'')]]"
    "sleeps (trace w') = [2, 2, 2]" "files w' = {}"
    using upload_completes_when_done [OF wt(1) up(1), of 3 unbound] d
    by (auto simp: misc sp gm pg eval_nat_numeral)
  have nd: "upload_one never_done ''fileSearchStores/a'' file_a (unbound, world0) = None"
    using upload_completes_when_done [OF wt(2) up(2), of 3 unbound] n by simp
  show ?thesis
    using d r n nd by auto
qed



lemma attrless_never_halts:
  assumes all: "\<forall>r op. \<exists>r' op'. operations_get client r op = (r', Inr op') \<and> op_done op' = None"
  shows "op_done operation = None \<Longrightarrow> \<not> halts_within n client operation r"
proof (induction n arbitrary: operation r)
  case 0
  then show ?case by (simp add: getattr_done_def)
next
  case (Suc n)
  from all obtain r' op' where g: "operations_get client r operation = (r', Inr op')"
    and d: "op_done op' = None"
    by blast
  from Suc.IH [OF d] Suc.prems g show ?case
    by (simp add: getattr_done_def)
qed

text \<open>
  Claim C10. The guard of the polling loop is a total test that holds exactly when the
  handle has a done attribute that is true. A handle without the attribute counts as not
  done: the loop then sleeps and fetches the status again, and it neither ends nor reports
  success on that handle; when every status call returns a handle without the attribute,
  the loop never returns.
\<close>

theorem poll_guard_defaults_to_not_done:
  "(getattr_done operation = (op_done operation = Some True))
   \<and> (op_done operation = None \<longrightarrow>
        poll client operation w =
          (case operations_get client (outside w) operation of
             (r, Inl e) \<Rightarrow>
               Some (Inl e, emit [Sleep 2, OperationsGet operation] (w\<lparr>outside := r\<rparr>))
           | (r, Inr operation') \<Rightarrow>
               poll client operation'
                 (emit [Sleep 2, OperationsGet operation] (w\<lparr>outside := r\<rparr>))))
   \<and> (op_done operation = None \<and>
        (\<forall>r op. \<exists>r' op'. operations_get client r op = (r', Inr op') \<and> op_done op' = None)
        \<longrightarrow> poll client operation w = None)"
proof -
  have a: "getattr_done operation = (op_done operation = Some True)"
    by (cases "op_done operation") (simp_all add: getattr_done_def)
  have b: "poll client operation w =
          (case operations_get client (outside w) operation of
             (r, Inl e) \<Rightarrow>
               Some (Inl e, emit [Sleep 2, OperationsGet operation] (w\<lparr>outside := r\<rparr>))
           | (r, Inr operation') \<Rightarrow>
               poll client operation'
                 (emit [Sleep 2, OperationsGet operation] (w\<lparr>outside := r\<rparr>)))"
    if "op_done operation = None"
    using that by (intro poll_step) (simp add: getattr_done_def)
  have c: "poll client operation w = None"
    if "op_done operation = None"
      "\<forall>r op. \<exists>r' op'. operations_get client r op = (r', Inr op') \<and> op_done op' = None"
    using attrless_never_halts [OF that(2) that(1)] by (intro poll_never_halts) simp
  show ?thesis
    using a b c by blast
qed

theorem poll_guard_defaults_to_not_done_witness:
  "op_done bare = None \<and> getattr_done bare = False
   \<and> (\<forall>r op. \<exists>r' op'. operations_get no_done_attribute r op = (r', Inr op')
                        \<and> op_done op' = None)
   \<and> poll no_done_attribute bare world0 = None"
proof -
  have a: "op_done bare = None"
    by (simp add: bare_def)
  have b: "\<forall>r op. \<exists>r' op'. operations_get no_done_attribute r op = (r', Inr op')
                        \<and> op_done op' = None"
    by (simp add: no_done_attribute_def idle_def bare_def)
  have p: "poll no_done_attribute operation w = None" if "op_done operation = None"
    for operation w
    using poll_guard_defaults_to_not_done [of operation no_done_attribute w] that b by blast
  show ?thesis
    using a b p [OF a] poll_guard_defaults_to_not_done [of bare no_done_attribute world0]
    by simp
qed

text \<open>
  Claim C1 at a failing input. Two files are uploaded on a full disk. Writing the
  temporary file of the first raises; the handler reads \<open>display_name\<close>, which is not
  bound yet, so \<^verbatim>\<open>NameError\<close> leaves the handler and the loop. No result is
  collected for the first file and the second file is never processed.
\<close>

theorem upload_loop_stops_at_write_failure:
  "upload_and_import disk_full True [file_a, file_b] ''fileSearchStores/a'' world0 =
     Some (Some ''name 'display_name' is not defined'',
           unbound,
           world0\<lparr>files := {''/tmp/tmpa1b2.txt''},
                  trace := [NamedTemporaryFile ''.txt'',
                            TmpWrite ''/tmp/tmpa1b2.txt'' ''alpha'']\<rparr>)"
proof -
  have sp: "splitext ''a.txt'' = (''a'', ''.txt'')"
    by (simp add: splitext_def rfind_def)
  show ?thesis
    by (simp add: upload_and_import_def upload_one_def try_body_def write_temp_def
        except_handler_def finally_remove_def Let_def disk_full_def idle_def file_a_def
        file_b_def sp unbound_def world0_def emit_def)
qed

text \<open>
  Claim C2 at a failing input. The first file is imported; writing the temporary file of
  the second raises. The file was created, but \<open>temp_path\<close> still holds the path of
  the first file, so the \<^verbatim>\<open>finally\<close> clause calls \<^verbatim>\<open>os.remove\<close> on that
  path again and the temporary file of the second attempt stays on disk.
\<close>

theorem temp_file_left_after_write_failure:
  "upload_and_import disk_full_second True [file_a, file_b] ''fileSearchStores/a'' world0 =
     Some (None,
           \<lparr>v_temp_path = Some ''/tmp/tmpa1b2.txt'',
            v_display_name = Some ''a'',
            v_mime_type = Some ''text/plain'',
            v_results =
              [[(''file'', ''a.txt''), (''display_name'', ''a''), (''mime_type'', ''text/plain''),
                (''status'', ''success'')],
               [(''file'', ''b.pdf''), (''display_name'', ''a''),
                (''status'', ''error: No space left on device'')]]\<rparr>,
           \<lparr>outside = 0,
            files = {''/tmp/tmpa1b2.pdf''},
            trace =
              [NamedTemporaryFile ''.txt'',
               TmpWrite ''/tmp/tmpa1b2.txt'' ''alpha'',
               Ui StWrite ''Uploading to File Search store: a.txt (detected mime: text/plain)'',
               Ui StWrite ''Uploading & importing into File Search store: fileSearchStores/a (display name: a)'',
               UploadToFileSearchStore ''/tmp/tmpa1b2.txt'' ''fileSearchStores/a'' ''a'',
               Ui StSuccess ''Indexed: a.txt'',
               OsRemove ''/tmp/tmpa1b2.txt'',
               NamedTemporaryFile ''.pdf'',
               TmpWrite ''/tmp/tmpa1b2.pdf'' ''beta'',
               Ui StError ''Upload/import failed for b.pdf: No space left on device'',
               OsRemove ''/tmp/tmpa1b2.txt'']\<rparr>)"
proof -
  have sp: "splitext ''a.txt'' = (''a'', ''.txt'')" "splitext ''b.pdf'' = (''b'', ''.pdf'')"
    by (simp_all add: splitext_def rfind_def)
  have gm: "guess_mime platform_excerpt ''a.txt'' = ''text/plain''"
    by (simp add: guess_mime_def falsy_def platform_excerpt_def mimetypes_guess_type_def sp
        str_lower_def lower_char_def)
  have p: "poll client \<lparr>op_name = ''operations/1'', op_done = Some True\<rparr> w =
             Some (Inr \<lparr>op_name = ''operations/1'', op_done = Some True\<rparr>, w)"
    for client :: "nat env" and w
    by (rule poll_done) (simp add: getattr_done_def)
  show ?thesis
    by (simp add: upload_and_import_def upload_one_def try_body_def write_temp_def
        except_handler_def finally_remove_def Let_def disk_full_second_def idle_def file_a_def
        file_b_def sp gm p unbound_def world0_def emit_def success_record_def
        failure_record_def)
qed

text \<open>
  A remote failure is isolated: when the temporary file is written and the upload call
  raises, the iteration appends the failure record with the exception's message, removes
  the temporary file, and the loop goes on with the remaining files.
\<close>

theorem upload_failure_is_recorded:
  assumes wt: "write_temp client f w = (Inr temp_path, w1)"
    and up: "upload_to_file_search_store client (outside w1) temp_path store_name
               (fst (splitext (uf_name f))) = (r, Inl e)"
  shows "\<exists>v' w'. upload_one client store_name f (v, w) = Some (None, v', w')
           \<and> v_results v' = v_results v @
                [[(''file'', uf_name f), (''display_name'', fst (splitext (uf_name f))),
                  (''status'', ''error: '' @ e)]]
           \<and> files w' = files w - {temp_path}
           \<and> upload_loop client store_name (f # rest) (v, w) =
               upload_loop client store_name rest (v', w')"
  using write_temp_Inr [OF wt] up
  by (simp add: upload_one_def try_body_def wt Let_def emit_def except_handler_def
      finally_remove_def failure_record_def)

theorem upload_failure_is_recorded_witness:
  "\<exists>v' w'. upload_one upload_raises ''fileSearchStores/a'' file_a (unbound, world0) =
              Some (None, v', w')
     \<and> v_results v' = [[(''file'', ''a.txt''), (''display_name'', ''a''),
                         (''status'', ''error: quota exceeded'')]]
     \<and> files w' = {}"
proof -
  have sp: "splitext ''a.txt'' = (''a'', ''.txt'')"
    by (simp add: splitext_def rfind_def)
  have wt: "write_temp upload_raises file_a world0 =
      (Inr ''/tmp/tmpa1b2.txt'',
       world0\<lparr>files := {''/tmp/tmpa1b2.txt''},
              trace := [NamedTemporaryFile ''.txt'', TmpWrite ''/tmp/tmpa1b2.txt'' ''alpha'']\<rparr>)"
    by (simp add: write_temp_def upload_raises_def idle_def file_a_def sp world0_def emit_def
        Let_def)
  have up: "upload_to_file_search_store upload_raises
              (outside (world0\<lparr>files := {''/tmp/tmpa1b2.txt''},
                 trace := [NamedTemporaryFile ''.txt'', TmpWrite ''/tmp/tmpa1b2.txt'' ''alpha'']\<rparr>))
              ''/tmp/tmpa1b2.txt'' ''fileSearchStores/a'' (fst (splitext (uf_name file_a))) =
            (0, Inl ''quota exceeded'')"
    by (simp add: upload_raises_def idle_def world0_def)
  have misc: "uf_name file_a = ''a.txt''" "v_results unbound = []" "files world0 = {}"
    by (simp_all add: file_a_def unbound_def world0_def)
  show ?thesis
    using upload_failure_is_recorded [OF wt up, of unbound "[]"]
    by (auto simp: misc sp)
qed

end
